theory Spec2Isabelle
  imports Complex_Main "HOL-Library.AList" "HOL-Library.Multiset"
begin

section \<open>JavaScript strings\<close>

text \<open>
  A JavaScript string is a sequence of code units; the model keeps the code units below 256
  (\<^typ>\<open>string\<close>). On that range \<open>String.prototype.toLowerCase\<close> maps \<open>A\<close>..\<open>Z\<close> and the
  Latin-1 capitals (0xC0..0xDE without 0xD7) to the code unit 32 above and leaves every
  other code unit alone; \<open>includes\<close> (here \<open>includes_str\<close>) is the substring
  test; \<open>substring(0, n)\<close> is \<^const>\<open>take\<close>; \<open>trim\<close> strips white space and line
  terminators from both ends.
\<close>

definition lower_char :: "char \<Rightarrow> char" where
  "lower_char c =
     (let n = of_char c :: nat in
      if (65 \<le> n \<and> n \<le> 90) \<or> (192 \<le> n \<and> n \<le> 222 \<and> n \<noteq> 215)
      then char_of (n + 32) else c)"

definition toLowerCase :: "string \<Rightarrow> string" where
  "toLowerCase s = map lower_char s"

fun startsWith :: "string \<Rightarrow> string \<Rightarrow> bool" where
  "startsWith s [] = True"
| "startsWith [] (p # ps) = False"
| "startsWith (c # cs) (p # ps) = (c = p \<and> startsWith cs ps)"

fun includes_str :: "string \<Rightarrow> string \<Rightarrow> bool" where
  "includes_str [] p = (p = [])"
| "includes_str (c # cs) p = (startsWith (c # cs) p \<or> includes_str cs p)"

definition is_white_space :: "char \<Rightarrow> bool" where
  "is_white_space c = (of_char c \<in> {9, 10, 11, 12, 13, 32, 160 :: nat})"

definition js_trim :: "string \<Rightarrow> string" where
  "js_trim s = rev (dropWhile is_white_space (rev (dropWhile is_white_space s)))"

section \<open>The intent classifier (\<open>ChatController.analyzeIntent\<close>)\<close>

record intent =
  intent_type :: string
  confidence :: real

definition analyzeIntent :: "string \<Rightarrow> intent" where
  "analyzeIntent message =
     (let lowerMessage = toLowerCase message in
      if includes_str lowerMessage ''generate'' \<and>
         (includes_str lowerMessage ''image'' \<or> includes_str lowerMessage ''picture'')
      then \<lparr>intent_type = ''image_generation'', confidence = 0.9\<rparr>
      else if includes_str lowerMessage ''create'' \<and>
         (includes_str lowerMessage ''image'' \<or> includes_str lowerMessage ''picture'')
      then \<lparr>intent_type = ''image_generation'', confidence = 0.9\<rparr>
      else if includes_str lowerMessage ''code'' \<or> includes_str lowerMessage ''program'' \<or>
         includes_str lowerMessage ''function''
      then \<lparr>intent_type = ''code_generation'', confidence = 0.8\<rparr>
      else if includes_str lowerMessage ''write'' \<and>
         (includes_str lowerMessage ''code'' \<or> includes_str lowerMessage ''script'')
      then \<lparr>intent_type = ''code_generation'', confidence = 0.9\<rparr>
      else if includes_str lowerMessage ''search'' \<or> includes_str lowerMessage ''find'' \<or>
         includes_str lowerMessage ''latest''
      then \<lparr>intent_type = ''web_search'', confidence = 0.7\<rparr>
      else if includes_str lowerMessage ''voice'' \<or> includes_str lowerMessage ''speak'' \<or>
         includes_str lowerMessage ''audio''
      then \<lparr>intent_type = ''voice_command'', confidence = 0.8\<rparr>
      else if includes_str lowerMessage ''analyze'' \<or> includes_str lowerMessage ''document'' \<or>
         includes_str lowerMessage ''file''
      then \<lparr>intent_type = ''document_analysis'', confidence = 0.7\<rparr>
      else \<lparr>intent_type = ''text_response'', confidence = 0.9\<rparr>)"

text \<open>The triggers of the rule table, as predicates on the lower-cased message.\<close>

definition image_rule :: "string \<Rightarrow> bool" where
  "image_rule l = ((includes_str l ''generate'' \<or> includes_str l ''create'') \<and>
     (includes_str l ''image'' \<or> includes_str l ''picture''))"

definition any_rule :: "string \<Rightarrow> bool" where
  "any_rule l = (image_rule l \<or>
     includes_str l ''code'' \<or> includes_str l ''program'' \<or> includes_str l ''function'' \<or>
     (includes_str l ''write'' \<and> (includes_str l ''code'' \<or> includes_str l ''script'')) \<or>
     includes_str l ''search'' \<or> includes_str l ''find'' \<or> includes_str l ''latest'' \<or>
     includes_str l ''voice'' \<or> includes_str l ''speak'' \<or> includes_str l ''audio'' \<or>
     includes_str l ''analyze'' \<or> includes_str l ''document'' \<or> includes_str l ''file'')"

section \<open>JavaScript values read from objects\<close>

text \<open>
  A property read yields a number, a date, \<open>undefined\<close>, or some object or function
  (what a read of a key such as \<open>constructor\<close> finds on \<open>Object.prototype\<close>).
  \<open>a || b\<close> is \<open>a\<close> when \<open>a\<close> is truthy and \<open>b\<close> otherwise; \<open>a < b\<close> converts both sides
  to numbers and is \<open>false\<close> as soon as one of them is \<open>NaN\<close>.
\<close>

datatype jsval = Undefined | Num int | DateVal nat | Obj

definition object_prototype_keys :: "string list" where
  "object_prototype_keys =
     [''constructor'', ''__proto__'', ''hasOwnProperty'', ''isPrototypeOf'',
      ''propertyIsEnumerable'', ''toLocaleString'', ''toString'', ''valueOf'',
      ''__defineGetter__'', ''__defineSetter__'', ''__lookupGetter__'', ''__lookupSetter__'']"

definition get_prop :: "(string \<times> jsval) list \<Rightarrow> string \<Rightarrow> jsval" where
  "get_prop obj k =
     (case map_of obj k of
        Some v \<Rightarrow> v
      | None \<Rightarrow> if k \<in> set object_prototype_keys then Obj else Undefined)"

fun truthy :: "jsval \<Rightarrow> bool" where
  "truthy Undefined = False"
| "truthy (Num n) = (n \<noteq> 0)"
| "truthy (DateVal t) = True"
| "truthy Obj = True"

definition js_or :: "jsval \<Rightarrow> jsval \<Rightarrow> jsval" where
  "js_or a b = (if truthy a then a else b)"

fun to_number :: "jsval \<Rightarrow> int option" where
  "to_number Undefined = None"
| "to_number (Num n) = Some n"
| "to_number (DateVal t) = Some (int t)"
| "to_number Obj = None"

definition js_lt :: "jsval \<Rightarrow> jsval \<Rightarrow> bool" where
  "js_lt a b =
     (case (to_number a, to_number b) of (Some x, Some y) \<Rightarrow> x < y | _ \<Rightarrow> False)"

section \<open>The persistence entities\<close>

text \<open>
  An \<open>ObjectId\<close> is a number (of 96 bits when it comes from a string). Its \<open>toString()\<close>
  is its 24 hex digits in lower case. A string is cast to an \<open>ObjectId\<close> when it has 24 hex
  digits, in either case, or when it has 12 characters of one byte each, which are then the
  12 bytes of the id; any other string is refused. Dates are readings of a clock. The
  \<open>_id\<close> of a conversation is the key under which the store holds it.
\<close>

type_synonym oid = nat

definition hex_value :: "char \<Rightarrow> nat option" where
  "hex_value c =
     (let n = of_char c :: nat in
      if 48 \<le> n \<and> n \<le> 57 then Some (n - 48)
      else if 97 \<le> n \<and> n \<le> 102 then Some (n - 87)
      else if 65 \<le> n \<and> n \<le> 70 then Some (n - 55)
      else None)"

definition hex_digit :: "char \<Rightarrow> nat" where
  "hex_digit c = (case hex_value c of Some d \<Rightarrow> d | None \<Rightarrow> 0)"

definition hex_char :: "nat \<Rightarrow> char" where
  "hex_char d = ''0123456789abcdef'' ! (d mod 16)"

definition cast_ObjectId :: "string \<Rightarrow> oid option" where
  "cast_ObjectId s =
     (if length s = 12 \<and> list_all (\<lambda>c. (of_char c :: nat) < 128) s
      then Some (fold (\<lambda>c n. 256 * n + of_char c) s 0)
      else if length s = 24 \<and> list_all (\<lambda>c. hex_value c \<noteq> None) s
      then Some (fold (\<lambda>c n. 16 * n + hex_digit c) s 0)
      else None)"

fun hex_digits :: "nat \<Rightarrow> nat \<Rightarrow> string" where
  "hex_digits 0 n = []"
| "hex_digits (Suc k) n = hex_digits k (n div 16) @ [hex_char n]"

definition oid_toString :: "oid \<Rightarrow> string" where
  "oid_toString n = hex_digits 24 n"

text \<open>An id string is canonical when it is the \<open>toString()\<close> of the id it casts to.\<close>

definition canonical :: "string \<Rightarrow> bool" where
  "canonical s = (case cast_ObjectId s of None \<Rightarrow> False | Some n \<Rightarrow> oid_toString n = s)"

text \<open>
  The turn handler below takes the ids of its caller as \<open>ObjectId\<close>s. The methods of the
  models that compare an id argument as a string (\<open>addReaction\<close>, \<open>removeReaction\<close>,
  \<open>shareWith\<close>, \<open>removeShare\<close>) take the string.
\<close>

datatype error =
    UserNotFound
  | ConversationNotFoundOrAccessDenied
  | ConversationNotFound
  | ValidationError
  | DocumentNotFound
  | ProviderError

subsection \<open>User\<close>

datatype plan = free | basic | premium | enterprise

record usage =
  messagesSent :: int
  imagesGenerated :: int
  codeGenerated :: int
  lastActive :: nat

record user =
  subscription_plan :: plan
  user_usage :: usage

definition limits :: "plan \<Rightarrow> (string \<times> jsval) list" where
  "limits p =
     (case p of
        free \<Rightarrow> [(''messages'', Num 100), (''images'', Num 10), (''code'', Num 50)]
      | basic \<Rightarrow> [(''messages'', Num 1000), (''images'', Num 100), (''code'', Num 500)]
      | premium \<Rightarrow> [(''messages'', Num 10000), (''images'', Num 1000), (''code'', Num 5000)]
      | enterprise \<Rightarrow> [(''messages'', Num (- 1)), (''images'', Num (- 1)), (''code'', Num (- 1))])"

definition usage_props :: "usage \<Rightarrow> (string \<times> jsval) list" where
  "usage_props u =
     [(''messagesSent'', Num (messagesSent u)),
      (''imagesGenerated'', Num (imagesGenerated u)),
      (''codeGenerated'', Num (codeGenerated u)),
      (''lastActive'', DateVal (lastActive u))]"

definition checkLimits :: "user \<Rightarrow> string \<Rightarrow> bool" where
  "checkLimits this type =
     (let plan = subscription_plan this;
          limit = get_prop (limits plan) type
      in if limit = Num (- 1) then True
         else
           let current =
                 js_or (js_or (get_prop (usage_props (user_usage this)) (type @ ''sSent''))
                              (get_prop (usage_props (user_usage this)) (type @ ''sGenerated'')))
                       (get_prop (usage_props (user_usage this)) (type @ ''sGenerated''))
           in js_lt current limit)"

subsection \<open>Message\<close>

datatype mval = MStr string | MNum real | MBool bool | MDate nat

type_synonym metadata = "(string \<times> mval) list"

record reaction =
  reaction_userId :: oid
  reaction_type :: string
  reaction_timestamp :: nat

record message =
  message_id :: oid
  conversationId :: oid
  sender :: string
  content :: string
  messageType :: string
  metadata :: metadata
  reactions :: "reaction list"
  status :: string
  isDeleted :: bool
  deletedAt :: "nat option"
  deletedBy :: "oid option"

text \<open>
  The message schema declares no path \<open>timestamp\<close> (it has \<open>timestamps: true\<close>, which adds
  \<open>createdAt\<close> and \<open>updatedAt\<close>), so a message document has no such field: a \<open>timestamp\<close>
  given to the constructor is dropped, as is every key of \<open>metadata\<close> that the schema does
  not declare.
\<close>

definition metadata_paths :: "string list" where
  "metadata_paths =
     [''model'', ''provider'', ''tokens'', ''responseTime'', ''intent'', ''confidence'',
      ''imageUrl'', ''imagePrompt'', ''imageSize'',
      ''language'', ''syntaxHighlighting'', ''executionResult'',
      ''audioUrl'', ''duration'', ''transcribedText'',
      ''fileName'', ''fileSize'', ''fileType'', ''downloadUrl'',
      ''isEdited'', ''editHistory'', ''reactions'', ''mentions'', ''links'', ''attachments'']"

definition cast_metadata :: "metadata \<Rightarrow> metadata" where
  "cast_metadata md = filter (\<lambda>(k, v). k \<in> set metadata_paths) md"

text \<open>\<open>new Message({ conversationId, sender, content, messageType, metadata, timestamp })\<close>.\<close>

definition new_message :: "oid \<Rightarrow> oid \<Rightarrow> string \<Rightarrow> string \<Rightarrow> string \<Rightarrow> metadata \<Rightarrow> message" where
  "new_message mid cid sndr text type md =
     \<lparr>message_id = mid, conversationId = cid, sender = sndr, content = text,
      messageType = type, metadata = cast_metadata md, reactions = [], status = ''sent'',
      isDeleted = False, deletedAt = None, deletedBy = None\<rparr>"

definition reaction_types :: "string list" where
  "reaction_types = [''like'', ''love'', ''laugh'', ''wow'', ''sad'', ''angry'']"

text \<open>
  \<open>messageSchema.methods.addReaction\<close>, with its \<open>this.save()\<close>. \<open>userId\<close> is the string
  \<open>userId.toString()\<close> of the argument, which the filter compares with the \<open>toString()\<close> of
  each stored id; the reaction pushed holds the argument cast to an \<open>ObjectId\<close>. The save is
  rejected when the argument does not cast or the type is not in the enum. \<open>now\<close> is
  \<open>new Date()\<close>.
\<close>

definition addReaction :: "string \<Rightarrow> string \<Rightarrow> nat \<Rightarrow> message \<Rightarrow> error + message" where
  "addReaction userId reactionType now this =
     (let kept = filter (\<lambda>r. oid_toString (reaction_userId r) \<noteq> userId) (reactions this)
      in case cast_ObjectId userId of
           None \<Rightarrow> Inl ValidationError
         | Some uid \<Rightarrow>
             if reactionType \<notin> set reaction_types then Inl ValidationError
             else Inr (this\<lparr>reactions := kept @
                    [\<lparr>reaction_userId = uid, reaction_type = reactionType,
                      reaction_timestamp = now\<rparr>]\<rparr>))"

definition removeReaction :: "string \<Rightarrow> message \<Rightarrow> message" where
  "removeReaction userId this =
     this\<lparr>reactions :=
       filter (\<lambda>r. oid_toString (reaction_userId r) \<noteq> userId) (reactions this)\<rparr>"

definition softDelete :: "oid \<Rightarrow> nat \<Rightarrow> message \<Rightarrow> message" where
  "softDelete userId now this =
     this\<lparr>isDeleted := True, deletedAt := Some now, deletedBy := Some userId\<rparr>"

text \<open>
  A run of \<open>addReaction\<close> calls, each with its user id, its reaction type and its time; it
  stops at the first call that is rejected.
\<close>

fun addReactions :: "(string \<times> string \<times> nat) list \<Rightarrow> message \<Rightarrow> error + message" where
  "addReactions [] this = Inr this"
| "addReactions ((u, t, now) # calls) this =
     (case addReaction u t now this of
        Inl e \<Rightarrow> Inl e
      | Inr this' \<Rightarrow> addReactions calls this')"

text \<open>The user ids and types of the reactions of a message, as a client reads them.\<close>

definition reactions_view :: "error + message \<Rightarrow> (string \<times> string) list option" where
  "reactions_view x =
     (case x of
        Inl e \<Rightarrow> None
      | Inr m \<Rightarrow> Some (map (\<lambda>r. (oid_toString (reaction_userId r), reaction_type r)) (reactions m)))"

subsection \<open>Conversation\<close>

record share =
  share_userId :: oid
  permission :: string
  addedAt :: nat

record conversation =
  userId :: oid
  title :: string
  lastMessage :: "string option"
  messageCount :: int
  sharedWith :: "share list"
  createdAt :: nat
  updatedAt :: nat

text \<open>
  \<open>Array.prototype.find\<close> returns the first entry that matches, and the assignment to its
  \<open>permission\<close> changes that entry where it stands.
\<close>

fun update_first :: "('a \<Rightarrow> bool) \<Rightarrow> ('a \<Rightarrow> 'a) \<Rightarrow> 'a list \<Rightarrow> 'a list" where
  "update_first P f [] = []"
| "update_first P f (x # xs) = (if P x then f x # xs else x # update_first P f xs)"

definition permission_levels :: "string list" where
  "permission_levels = [''read'', ''write'', ''admin'']"

text \<open>
  \<open>conversationSchema.methods.shareWith\<close> and \<open>removeShare\<close>, with their \<open>this.save()\<close>. The
  argument \<open>userId\<close> (here \<open>uid\<close>) is a string, compared with the \<open>toString()\<close> of each stored id; the entry
  pushed holds the argument cast to an \<open>ObjectId\<close>. The save is rejected when the argument
  does not cast or the permission is not in the enum.
\<close>

definition shareWith :: "string \<Rightarrow> string \<Rightarrow> nat \<Rightarrow> conversation \<Rightarrow> error + conversation" where
  "shareWith uid perm now this =
     (case find (\<lambda>s. oid_toString (share_userId s) = uid) (sharedWith this) of
        Some existingShare \<Rightarrow>
          if perm \<notin> set permission_levels then Inl ValidationError
          else Inr (this\<lparr>sharedWith :=
            update_first (\<lambda>s. oid_toString (share_userId s) = uid)
              (\<lambda>s. s\<lparr>permission := perm\<rparr>) (sharedWith this)\<rparr>)
      | None \<Rightarrow>
          (case cast_ObjectId uid of
             None \<Rightarrow> Inl ValidationError
           | Some u \<Rightarrow>
               if perm \<notin> set permission_levels then Inl ValidationError
               else Inr (this\<lparr>sharedWith := sharedWith this @
                      [\<lparr>share_userId = u, permission = perm, addedAt = now\<rparr>]\<rparr>)))"

definition removeShare :: "string \<Rightarrow> conversation \<Rightarrow> conversation" where
  "removeShare uid this =
     this\<lparr>sharedWith :=
       filter (\<lambda>s. oid_toString (share_userId s) \<noteq> uid) (sharedWith this)\<rparr>"

datatype share_op = ShareWith string string nat | RemoveShare string

fun share_step :: "share_op \<Rightarrow> conversation \<Rightarrow> error + conversation" where
  "share_step (ShareWith uid perm now) c = shareWith uid perm now c"
| "share_step (RemoveShare uid) c = Inr (removeShare uid c)"

definition canonical_op :: "share_op \<Rightarrow> bool" where
  "canonical_op op =
     (case op of
        ShareWith uid perm now \<Rightarrow> canonical uid \<and> perm \<in> set permission_levels
      | RemoveShare uid \<Rightarrow> True)"

text \<open>A run of sharing calls; it stops at the first call that is rejected.\<close>

fun share_run :: "share_op list \<Rightarrow> conversation \<Rightarrow> error + conversation" where
  "share_run [] c = Inr c"
| "share_run (op # ops) c =
     (case share_step op c of Inl e \<Rightarrow> Inl e | Inr c' \<Rightarrow> share_run ops c')"

text \<open>The user ids and permissions of the sharing entries, as a client reads them.\<close>

definition shares_view :: "error + conversation \<Rightarrow> (string \<times> string) list option" where
  "shares_view x =
     (case x of
        Inl e \<Rightarrow> None
      | Inr c \<Rightarrow> Some (map (\<lambda>s. (oid_toString (share_userId s), permission s)) (sharedWith c)))"

section \<open>The document store\<close>

text \<open>
  The database holds the three collections. \<open>clock\<close> is what \<open>new Date()\<close> reads (each
  reading advances it) and \<open>next_oid\<close> is the next fresh \<open>ObjectId\<close>. Messages are kept in
  the order of their insertion.
\<close>

record store =
  users :: "oid \<rightharpoonup> user"
  conversations :: "oid \<rightharpoonup> conversation"
  messages :: "message list"
  clock :: nat
  next_oid :: oid

text \<open>An \<open>await\<close>ed step either throws, leaving the store as it is then, or goes on.\<close>

definition bind ::
  "store \<times> (error + 'a) \<Rightarrow> (store \<Rightarrow> 'a \<Rightarrow> store \<times> (error + 'b)) \<Rightarrow> store \<times> (error + 'b)" where
  "bind r f = (case r of (st, Inl e) \<Rightarrow> (st, Inl e) | (st, Inr x) \<Rightarrow> f st x)"

definition new_Date :: "store \<Rightarrow> nat \<times> store" where
  "new_Date st = (clock st, st\<lparr>clock := Suc (clock st)\<rparr>)"

definition new_ObjectId :: "store \<Rightarrow> oid \<times> store" where
  "new_ObjectId st = (next_oid st, st\<lparr>next_oid := Suc (next_oid st)\<rparr>)"

subsection \<open>Schema validation and the save hooks\<close>

text \<open>
  The validators the schemas declare (\<open>required\<close>, \<open>maxlength\<close>, \<open>enum\<close>) run when a
  document is saved, before the \<open>pre('save')\<close> hook of the schema; a string path declared
  \<open>trim: true\<close> holds the trimmed value from the moment it is set.
\<close>

definition message_types :: "string list" where
  "message_types = [''text'', ''image'', ''code'', ''voice'', ''file'', ''system'']"

definition validate_message :: "message \<Rightarrow> bool" where
  "validate_message m =
     (sender m \<in> set [''user'', ''ai''] \<and>
      content m \<noteq> [] \<and> length (content m) \<le> 10000 \<and>
      messageType m \<in> set message_types \<and>
      status m \<in> set [''sent'', ''delivered'', ''read'', ''failed''] \<and>
      list_all (\<lambda>r. reaction_type r \<in> set reaction_types) (reactions m))"

text \<open>
  Saving a new message: validation, then \<open>messageSchema.pre('save')\<close>, which for a new
  document increments \<open>messageCount\<close> of the conversation the message names (an update by
  id, which does nothing when there is no such conversation), then the insertion. The hook
  does not wait for its update; the model applies it with the insertion.
\<close>

definition Message_save_new :: "store \<Rightarrow> message \<Rightarrow> store \<times> (error + message)" where
  "Message_save_new st m =
     (if \<not> validate_message m then (st, Inl ValidationError)
      else
        (st\<lparr>conversations :=
              (case conversations st (conversationId m) of
                 None \<Rightarrow> conversations st
               | Some c \<Rightarrow> (conversations st)(conversationId m \<mapsto>
                    c\<lparr>messageCount := messageCount c + 1\<rparr>)),
            messages := messages st @ [m]\<rparr>,
         Inr m))"

text \<open>
  \<open>this.save()\<close> at the end of \<open>softDelete\<close>: the paths that method assigns
  (\<open>isDeleted\<close>, \<open>deletedAt\<close>, \<open>deletedBy\<close>) carry no validator, the hook does nothing
  since the document is not new, and the one stored document of that id is updated.
\<close>

definition Message_save_deleted :: "store \<Rightarrow> message \<Rightarrow> store" where
  "Message_save_deleted st m =
     st\<lparr>messages :=
          update_first (\<lambda>x. message_id x = message_id m) (\<lambda>_. m) (messages st)\<rparr>"

definition Conversation_save_new ::
  "store \<Rightarrow> oid \<Rightarrow> conversation \<Rightarrow> store \<times> (error + oid \<times> conversation)" where
  "Conversation_save_new st cid c =
     (if title c = [] \<or> length (title c) > 200 then (st, Inl ValidationError)
      else (st\<lparr>conversations := (conversations st)(cid \<mapsto> c)\<rparr>, Inr (cid, c)))"

text \<open>
  \<open>conversation.save()\<close> after \<open>lastMessage\<close> and \<open>updatedAt\<close> were assigned: the modified
  paths are validated and written to the stored document, whose other fields (among them
  the \<open>messageCount\<close> the message hook maintains) stay as stored.
\<close>

definition Conversation_save_lastMessage ::
  "store \<Rightarrow> oid \<Rightarrow> conversation \<Rightarrow> store \<times> (error + conversation)" where
  "Conversation_save_lastMessage st cid c =
     (if (case lastMessage c of None \<Rightarrow> False | Some l \<Rightarrow> length l > 500)
      then (st, Inl ValidationError)
      else
        (case conversations st cid of
           None \<Rightarrow> (st, Inl DocumentNotFound)
         | Some stored \<Rightarrow>
             (st\<lparr>conversations := (conversations st)(cid \<mapsto>
                  stored\<lparr>lastMessage := lastMessage c, updatedAt := updatedAt c\<rparr>)\<rparr>,
              Inr c)))"

subsection \<open>Creating and soft-deleting messages\<close>

datatype message_op =
    CreateMessage oid string string string
  | SoftDelete oid oid

text \<open>
  \<open>CreateMessage cid sender content type\<close> is \<open>new Message({...}).save()\<close>;
  \<open>SoftDelete mid uid\<close> is \<open>softDelete(uid)\<close> on the stored message \<open>mid\<close>.
  \<open>creates_in cid\<close> holds of the creations under conversation \<open>cid\<close> that the message
  schema accepts.
\<close>

definition creates_in :: "oid \<Rightarrow> message_op \<Rightarrow> bool" where
  "creates_in cid op =
     (case op of
        CreateMessage c sndr text type \<Rightarrow>
          c = cid \<and> sndr \<in> set [''user'', ''ai''] \<and> text \<noteq> [] \<and> length text \<le> 10000 \<and>
          type \<in> set message_types
      | SoftDelete mid uid \<Rightarrow> False)"

fun message_step :: "message_op \<Rightarrow> store \<Rightarrow> store" where
  "message_step (CreateMessage cid sndr text type) st =
     (let (mid, st) = new_ObjectId st;
          (now, st) = new_Date st
      in fst (Message_save_new st (new_message mid cid sndr text type [])))"
| "message_step (SoftDelete mid uid) st =
     (case find (\<lambda>m. message_id m = mid) (messages st) of
        None \<Rightarrow> st
      | Some m \<Rightarrow>
          (let (now, st) = new_Date st
           in Message_save_deleted st (softDelete uid now m)))"

definition message_run :: "message_op list \<Rightarrow> store \<Rightarrow> store" where
  "message_run ops st = fold message_step ops st"

definition messages_of :: "store \<Rightarrow> oid \<Rightarrow> message list" where
  "messages_of st cid = filter (\<lambda>m. conversationId m = cid) (messages st)"

definition live_messages_of :: "store \<Rightarrow> oid \<Rightarrow> message list" where
  "live_messages_of st cid =
     filter (\<lambda>m. conversationId m = cid \<and> \<not> isDeleted m) (messages st)"

section \<open>The AI provider gateway (\<open>AIService\<close>)\<close>

text \<open>
  The three remote calls are parameters: each answers a request with the text (or image
  URL) it returns, or with \<open>None\<close> when the call fails.
\<close>

record providers =
  openai_chat :: "(string \<times> string) list \<Rightarrow> string option"
  openai_image :: "string \<Rightarrow> string option"
  gemini :: "string \<Rightarrow> string option"

record ai_result =
  res_content :: string
  res_type :: string
  res_metadata :: metadata

definition system_prompt :: string where
  "system_prompt = ''You are RAI (Revolutionary AI Assistant), a comprehensive AI that combines the best features from Gemini, Siri, ChatGPT, and other leading AI platforms. You are helpful, creative, and can assist with any task. You have access to real-time information, can generate code, create images, and much more. Always be friendly and professional.''"

definition gemini_preamble :: string where
  "gemini_preamble = ''You are RAI (Revolutionary AI Assistant), a comprehensive AI that combines the best features from Gemini, Siri, ChatGPT, and other leading AI platforms. You are helpful, creative, and can assist with any task.''"

definition gemini_fallback_text :: string where
  "gemini_fallback_text = ''I'm here to help! I can assist you with various tasks including text generation, code creation, image generation, and more. What would you like to work on?''"

definition apology_text :: string where
  "apology_text = ''I apologize, but I'm having trouble processing your request right now. Please try again in a moment.''"

definition code_system_prompt :: string where
  "code_system_prompt = ''You are an expert programmer. Generate clean, working code with appropriate comments. Always specify the programming language.''"

definition code_prompt_prefix :: string where
  "code_prompt_prefix = ''Generate code based on the following request. Provide only the code with brief comments explaining key parts. If it's a complete application, provide all necessary files. Request: ''"

definition nl :: string where
  "nl = [CHR 0x0A]"

definition buildGeminiPrompt :: "string \<Rightarrow> message list \<Rightarrow> string" where
  "buildGeminiPrompt message history =
     gemini_preamble @ nl @ nl @
     (if length history > 0
      then ''Previous conversation:'' @ nl @
           concat (map (\<lambda>msg. (if sender msg = ''user'' then ''User'' else ''RAI'') @ '': '' @
                                content msg @ nl) history) @ nl
      else []) @
     ''User: '' @ message @ nl @ ''RAI:''"

definition generateWithGemini :: "providers \<Rightarrow> string \<Rightarrow> message list \<Rightarrow> error + ai_result" where
  "generateWithGemini p message history =
     (case gemini p (buildGeminiPrompt message history) of
        Some text \<Rightarrow>
          Inr \<lparr>res_content = text, res_type = ''text'',
               res_metadata = [(''model'', MStr ''gemini-pro''), (''provider'', MStr ''google'')]\<rparr>
      | None \<Rightarrow>
          Inr \<lparr>res_content = gemini_fallback_text, res_type = ''text'',
               res_metadata = [(''model'', MStr ''fallback''), (''provider'', MStr ''rai'')]\<rparr>)"

text \<open>The role-tagged messages \<open>generateTextResponse\<close> sends to the chat completion.\<close>

definition chat_request :: "string \<Rightarrow> message list \<Rightarrow> (string \<times> string) list" where
  "chat_request message history =
     [(''system'', system_prompt)] @
     map (\<lambda>msg. (if sender msg = ''user'' then ''user'' else ''assistant'', content msg))
       history @
     [(''user'', message)]"

definition generateTextResponse :: "providers \<Rightarrow> string \<Rightarrow> message list \<Rightarrow> error + ai_result" where
  "generateTextResponse p message history =
     (let messages = chat_request message history
      in case openai_chat p messages of
           Some text \<Rightarrow>
             Inr \<lparr>res_content = text, res_type = ''text'',
                  res_metadata = [(''model'', MStr ''gpt-4''), (''provider'', MStr ''openai'')]\<rparr>
         | None \<Rightarrow> generateWithGemini p message history)"

definition generateImage :: "providers \<Rightarrow> string \<Rightarrow> error + ai_result" where
  "generateImage p prompt =
     (case openai_image p prompt of
        Some url \<Rightarrow>
          Inr \<lparr>res_content = url, res_type = ''image'',
               res_metadata = [(''model'', MStr ''dall-e-3''), (''provider'', MStr ''openai''),
                               (''prompt'', MStr prompt)]\<rparr>
      | None \<Rightarrow> Inl ProviderError)"

definition detectLanguage :: "string \<Rightarrow> string" where
  "detectLanguage code =
     (let lowerCode = toLowerCase code in
      if includes_str lowerCode ''function'' \<and> includes_str lowerCode ''const'' \<and>
         includes_str lowerCode ''=>'' then ''javascript''
      else if includes_str lowerCode ''def '' \<or> includes_str lowerCode ''import '' then ''python''
      else if includes_str lowerCode ''public class'' \<or> includes_str lowerCode ''public static''
        then ''java''
      else if includes_str lowerCode ''#include'' \<or> includes_str lowerCode ''int main'' then ''cpp''
      else if includes_str lowerCode ''<?php'' then ''php''
      else if includes_str lowerCode ''html'' \<or> includes_str lowerCode ''<!DOCTYPE'' then ''html''
      else if includes_str lowerCode ''css'' \<or>
         (includes_str lowerCode ''{'' \<and> includes_str lowerCode '':'') then ''css''
      else ''unknown'')"

definition generateCode :: "providers \<Rightarrow> string \<Rightarrow> error + ai_result" where
  "generateCode p message =
     (let codePrompt = code_prompt_prefix @ message in
      case openai_chat p [(''system'', code_system_prompt), (''user'', codePrompt)] of
        Some text \<Rightarrow>
          Inr \<lparr>res_content = text, res_type = ''code'',
               res_metadata = [(''model'', MStr ''gpt-4''), (''provider'', MStr ''openai''),
                               (''language'', MStr (detectLanguage text))]\<rparr>
      | None \<Rightarrow> Inl ProviderError)"

definition webSearch :: "providers \<Rightarrow> nat \<Rightarrow> string \<Rightarrow> error + ai_result" where
  "webSearch p now query =
     (case generateTextResponse p
             (''Search for the latest information about: '' @ query @
              ''. Provide current and accurate information.'') [] of
        Inl e \<Rightarrow> Inl e
      | Inr searchResponse \<Rightarrow>
          Inr \<lparr>res_content = res_content searchResponse, res_type = ''search_result'',
               res_metadata = [(''query'', MStr query), (''source'', MStr ''web_search''),
                               (''timestamp'', MDate now)]\<rparr>)"

definition processVoiceCommand :: "providers \<Rightarrow> string \<Rightarrow> error + ai_result" where
  "processVoiceCommand p command =
     (case generateTextResponse p
             (''Process this voice command: '' @ command @
              ''. Provide a helpful response and suggest any actions that could be taken.'') [] of
        Inl e \<Rightarrow> Inl e
      | Inr response \<Rightarrow>
          Inr \<lparr>res_content = res_content response, res_type = ''voice_command'',
               res_metadata = [(''originalCommand'', MStr command), (''processed'', MBool True)]\<rparr>)"

definition analyzeDocument :: "providers \<Rightarrow> nat \<Rightarrow> string \<Rightarrow> error + ai_result" where
  "analyzeDocument p now documentContent =
     (case generateTextResponse p
             (''Analyze the following document and provide a comprehensive summary with key insights: '' @
              documentContent) [] of
        Inl e \<Rightarrow> Inl e
      | Inr response \<Rightarrow>
          Inr \<lparr>res_content = res_content response, res_type = ''document_analysis'',
               res_metadata = [(''documentLength'', MNum (real (length documentContent))),
                               (''analysisType'', MStr ''comprehensive''),
                               (''timestamp'', MDate now)]\<rparr>)"

section \<open>The conversation orchestrator (\<open>ChatController\<close>)\<close>

text \<open>
  \<open>Message.find({ conversationId }).sort({ timestamp: 1 }).limit(10)\<close>: the messages of the
  conversation, deleted or not. No message document has a \<open>timestamp\<close>, so the sort finds
  the same (missing) key in all of them and leaves them in the order of the collection, the
  order of their insertion; the limit cuts after the tenth.
\<close>

definition conversation_history :: "store \<Rightarrow> oid \<Rightarrow> message list" where
  "conversation_history st cid =
     take 10 (filter (\<lambda>m. conversationId m = cid) (messages st))"

text \<open>\<open>x || 'text'\<close> on a string: the empty string is the only falsy one.\<close>

definition or_text :: "string \<Rightarrow> string" where
  "or_text t = (if t = [] then ''text'' else t)"

text \<open>\<open>{ ...a, ...b }\<close>: the keys of \<open>b\<close> overwrite those of \<open>a\<close> or are added after them.\<close>

definition spread :: "metadata \<Rightarrow> metadata \<Rightarrow> metadata" where
  "spread a b = fold (\<lambda>(k, v). AList.update k v) b a"

text \<open>
  The end of \<open>generateAIResponse\<close>: the answer of the gateway tagged with the intent, or the
  apology of the \<open>catch\<close> when the gateway threw.
\<close>

definition tagged_reply :: "intent \<Rightarrow> error + ai_result \<Rightarrow> ai_result" where
  "tagged_reply intent response =
     (case response of
        Inr r \<Rightarrow>
          \<lparr>res_content = res_content r, res_type = or_text (res_type r),
           res_metadata =
             spread [(''intent'', MStr (intent_type intent)),
                     (''confidence'', MNum (confidence intent))] (res_metadata r)\<rparr>
      | Inl e \<Rightarrow>
          \<lparr>res_content = apology_text, res_type = ''text'',
           res_metadata = [(''error'', MBool True)]\<rparr>)"

definition generateAIResponse :: "providers \<Rightarrow> store \<Rightarrow> nat \<Rightarrow> string \<Rightarrow> oid \<Rightarrow> ai_result" where
  "generateAIResponse p st now message cid =
     (let history = conversation_history st cid;
          intent = analyzeIntent message;
          response =
            (if intent_type intent = ''image_generation'' then generateImage p message
             else if intent_type intent = ''code_generation'' then generateCode p message
             else if intent_type intent = ''web_search'' then webSearch p now message
             else if intent_type intent = ''document_analysis'' then analyzeDocument p now message
             else if intent_type intent = ''voice_command'' then processVoiceCommand p message
             else generateTextResponse p message history)
      in tagged_reply intent response)"

record send_data =
  d_userId :: oid
  d_message :: string
  d_conversationId :: "oid option"
  d_messageType :: "string option"

record user_message_view =
  um_id :: oid
  um_content :: string
  um_type :: string
  um_timestamp :: "nat option"

record ai_message_view =
  am_id :: oid
  am_content :: string
  am_type :: string
  am_metadata :: metadata
  am_timestamp :: "nat option"

record conversation_view =
  cv_id :: oid
  cv_title :: string
  cv_updatedAt :: nat

record response =
  r_conversationId :: oid
  userMessage :: user_message_view
  aiMessage :: ai_message_view
  r_conversation :: conversation_view

text \<open>The first step of \<open>handleMessage\<close>: the conversation of the turn, found or created.\<close>

definition get_or_create_conversation ::
  "store \<Rightarrow> oid \<Rightarrow> string \<Rightarrow> oid option \<Rightarrow> store \<times> (error + oid \<times> conversation)" where
  "get_or_create_conversation st uid message convId =
     (case convId of
        Some cid \<Rightarrow>
          (case conversations st cid of
             None \<Rightarrow> (st, Inl ConversationNotFoundOrAccessDenied)
           | Some conversation \<Rightarrow>
               if userId conversation \<noteq> uid then (st, Inl ConversationNotFoundOrAccessDenied)
               else (st, Inr (cid, conversation)))
      | None \<Rightarrow>
          (let (cid, st) = new_ObjectId st;
               (now, st) = new_Date st
           in Conversation_save_new st cid
                \<lparr>userId = uid,
                 title = js_trim (take 50 message @ ''...''),
                 lastMessage = None, messageCount = 0, sharedWith = [],
                 createdAt = now, updatedAt = now\<rparr>))"

definition handleMessage :: "providers \<Rightarrow> store \<Rightarrow> send_data \<Rightarrow> store \<times> (error + response)" where
  "handleMessage p st data =
     (let uid = d_userId data;
          message = d_message data;
          messageType = (case d_messageType data of None \<Rightarrow> ''text'' | Some t \<Rightarrow> t)
      in case users st uid of
           None \<Rightarrow> (st, Inl UserNotFound)
         | Some user \<Rightarrow>
      bind (get_or_create_conversation st uid message (d_conversationId data))
        (\<lambda>st (cid, conversation).
      let (mid, st) = new_ObjectId st;
          (now, st) = new_Date st
      in
      bind (Message_save_new st (new_message mid cid ''user'' message messageType []))
        (\<lambda>st userMessage.
      let (now, st) = new_Date st;
          conversation = conversation\<lparr>lastMessage := Some (js_trim message), updatedAt := now\<rparr>
      in
      bind (Conversation_save_lastMessage st cid conversation)
        (\<lambda>st conversation.
      let (now, st) = new_Date st;
          aiResponse = generateAIResponse p st now message cid;
          (mid, st) = new_ObjectId st;
          (now, st) = new_Date st
      in
      bind (Message_save_new st
              (new_message mid cid ''ai'' (res_content aiResponse)
                 (or_text (res_type aiResponse)) (res_metadata aiResponse)))
        (\<lambda>st aiMessage.
      let (now, st) = new_Date st;
          conversation = conversation\<lparr>lastMessage := Some (js_trim (res_content aiResponse)),
                                      updatedAt := now\<rparr>
      in
      bind (Conversation_save_lastMessage st cid conversation)
        (\<lambda>st conversation.
      (st, Inr \<lparr>r_conversationId = cid,
                userMessage = \<lparr>um_id = message_id userMessage, um_content = message,
                               um_type = messageType, um_timestamp = None\<rparr>,
                aiMessage = \<lparr>am_id = message_id aiMessage, am_content = res_content aiResponse,
                             am_type = or_text (res_type aiResponse),
                             am_metadata = res_metadata aiResponse,
                             am_timestamp = None\<rparr>,
                r_conversation = \<lparr>cv_id = cid,
                                  cv_title = title conversation,
                                  cv_updatedAt = updatedAt conversation\<rparr>\<rparr>)))))))"

definition deleteConversation :: "store \<Rightarrow> oid \<Rightarrow> oid \<Rightarrow> store \<times> (error + bool)" where
  "deleteConversation st uid cid =
     (case conversations st cid of
        None \<Rightarrow> (st, Inl ConversationNotFound)
      | Some conversation \<Rightarrow>
          if userId conversation \<noteq> uid then (st, Inl ConversationNotFound)
          else
            (st\<lparr>conversations := (conversations st)(cid := None),
                messages := filter (\<lambda>m. conversationId m \<noteq> cid) (messages st)\<rparr>,
             Inr True))"

text \<open>
  How far the cached \<open>messageCount\<close> of a conversation is from the number of messages
  stored under it (\<open>None\<close> when there is no such conversation).
\<close>

definition count_gap :: "store \<Rightarrow> oid \<Rightarrow> int option" where
  "count_gap st cid =
     map_option (\<lambda>c. messageCount c - int (length (messages_of st cid))) (conversations st cid)"

text \<open>
  The specification's words for the context of a turn: the 10 most recent messages of the
  conversation, in ascending time order, that is the last 10 in the order of insertion.
  (\<open>conversation_history\<close> above is what the code fetches.)
\<close>

definition spec_recent_context :: "store \<Rightarrow> oid \<Rightarrow> message list" where
  "spec_recent_context st cid =
     (let ms = filter (\<lambda>m. conversationId m = cid) (messages st)
      in drop (length ms - 10) ms)"

definition starts_with_white_space :: "string \<Rightarrow> bool" where
  "starts_with_white_space s = (case s of [] \<Rightarrow> False | c # cs \<Rightarrow> is_white_space c)"

text \<open>The value a turn returns, when it does not throw.\<close>

definition returned :: "store \<times> (error + 'a) \<Rightarrow> 'a option" where
  "returned x = (case snd x of Inl e \<Rightarrow> None | Inr r \<Rightarrow> Some r)"

section \<open>Example data\<close>

definition example_user :: user where
  "example_user =
     \<lparr>subscription_plan = free,
      user_usage = \<lparr>messagesSent = 3, imagesGenerated = 1, codeGenerated = 0, lastActive = 0\<rparr>\<rparr>"

definition example_message :: message where
  "example_message = new_message 1 1 ''ai'' ''hello'' ''text'' []"

definition example_conversation :: conversation where
  "example_conversation =
     \<lparr>userId = 5, title = ''hello...'', lastMessage = None,
      messageCount = 0, sharedWith = [], createdAt = 0, updatedAt = 0\<rparr>"

definition example_store :: store where
  "example_store =
     \<lparr>users = [5 \<mapsto> example_user, 6 \<mapsto> example_user],
      conversations = [1 \<mapsto> example_conversation],
      messages = [], clock = 1, next_oid = 10\<rparr>"

text \<open>Providers whose every call fails, and providers whose every call answers.\<close>

definition failing_providers :: providers where
  "failing_providers =
     \<lparr>openai_chat = (\<lambda>request. None), openai_image = (\<lambda>prompt. None),
      gemini = (\<lambda>prompt. None)\<rparr>"

definition answering_providers :: providers where
  "answering_providers =
     \<lparr>openai_chat = (\<lambda>request. Some ''Hello!''),
      openai_image = (\<lambda>prompt. Some ''https://example.org/cat.png''),
      gemini = (\<lambda>prompt. Some ''Hello!'')\<rparr>"

definition hello_turn :: send_data where
  "hello_turn =
     \<lparr>d_userId = 5, d_message = ''hello'', d_conversationId = None, d_messageType = None\<rparr>"

definition indented_turn :: send_data where
  "indented_turn =
     \<lparr>d_userId = 5, d_message = '' hi'', d_conversationId = None, d_messageType = None\<rparr>"

definition search_turn :: send_data where
  "search_turn =
     \<lparr>d_userId = 5, d_message = ''find the latest news'', d_conversationId = None,
      d_messageType = None\<rparr>"

definition foreign_turn :: send_data where
  "foreign_turn =
     \<lparr>d_userId = 6, d_message = ''hello'', d_conversationId = Some 1, d_messageType = None\<rparr>"

text \<open>
  Conversation 1 with eleven messages, of ids 101 to 111 and contents \<open>a\<close> to \<open>k\<close> in the
  order of insertion; and providers whose chat completion answers with the contents it was
  sent after the system message.
\<close>

definition eleven_messages_store :: store where
  "eleven_messages_store =
     example_store
       \<lparr>conversations := [1 \<mapsto> example_conversation\<lparr>messageCount := 11\<rparr>],
        messages :=
          map (\<lambda>(k, c). new_message (100 + k) 1 (if even k then ''ai'' else ''user'') [c]
                 ''text'' [])
            (zip [1 ..< 12] ''abcdefghijk''),
        clock := 12, next_oid := 200\<rparr>"

definition echo_providers :: providers where
  "echo_providers =
     \<lparr>openai_chat = (\<lambda>request. Some (concat (map snd (tl request)))),
      openai_image = (\<lambda>prompt. None),
      gemini = (\<lambda>prompt. None)\<rparr>"

section \<open>The intent classifier: properties\<close>

lemma if_chain_mem:
  "(if b1 then x1 else if b2 then x2 else if b3 then x3 else if b4 then x4
    else if b5 then x5 else if b6 then x6 else if b7 then x7 else x8)
   \<in> {x1, x2, x3, x4, x5, x6, x7, x8}"
  by simp

lemma if_chain_default:
  "\<not> b1 \<Longrightarrow> \<not> b2 \<Longrightarrow> \<not> b3 \<Longrightarrow> \<not> b4 \<Longrightarrow> \<not> b5 \<Longrightarrow> \<not> b6 \<Longrightarrow> \<not> b7 \<Longrightarrow>
   (if b1 then x1 else if b2 then x2 else if b3 then x3 else if b4 then x4
    else if b5 then x5 else if b6 then x6 else if b7 then x7 else x8) = x8"
  by simp

lemma if_chain_third:
  "\<not> b1 \<Longrightarrow> \<not> b2 \<Longrightarrow> b3 \<Longrightarrow>
   (if b1 then x1 else if b2 then x2 else if b3 then x3 else y) = x3"
  by simp

lemma analyzeIntent_cases:
  "analyzeIntent s \<in>
     {\<lparr>intent_type = ''image_generation'', confidence = 0.9\<rparr>,
      \<lparr>intent_type = ''image_generation'', confidence = 0.9\<rparr>,
      \<lparr>intent_type = ''code_generation'', confidence = 0.8\<rparr>,
      \<lparr>intent_type = ''code_generation'', confidence = 0.9\<rparr>,
      \<lparr>intent_type = ''web_search'', confidence = 0.7\<rparr>,
      \<lparr>intent_type = ''voice_command'', confidence = 0.8\<rparr>,
      \<lparr>intent_type = ''document_analysis'', confidence = 0.7\<rparr>,
      \<lparr>intent_type = ''text_response'', confidence = 0.9\<rparr>}"
  unfolding analyzeIntent_def Let_def by (rule if_chain_mem)

lemma analyzeIntent_type:
  "intent_type (analyzeIntent s) \<in>
     {''image_generation'', ''code_generation'', ''web_search'', ''voice_command'',
      ''document_analysis'', ''text_response''}"
proof -
  have "\<And>x. x \<in> {\<lparr>intent_type = ''image_generation'', confidence = 0.9\<rparr>,
      \<lparr>intent_type = ''image_generation'', confidence = 0.9\<rparr>,
      \<lparr>intent_type = ''code_generation'', confidence = 0.8\<rparr>,
      \<lparr>intent_type = ''code_generation'', confidence = 0.9\<rparr>,
      \<lparr>intent_type = ''web_search'', confidence = 0.7\<rparr>,
      \<lparr>intent_type = ''voice_command'', confidence = 0.8\<rparr>,
      \<lparr>intent_type = ''document_analysis'', confidence = 0.7\<rparr>,
      \<lparr>intent_type = ''text_response'', confidence = 0.9::real\<rparr>} \<Longrightarrow>
      intent_type x \<in>
        {''image_generation'', ''code_generation'', ''web_search'', ''voice_command'',
         ''document_analysis'', ''text_response''}"
    by (elim insertE emptyE) (simp_all only: intent.select_convs insert_iff simp_thms)
  then show ?thesis using analyzeIntent_cases by blast
qed

lemma analyzeIntent_confidence:
  "0 \<le> confidence (analyzeIntent s) \<and> confidence (analyzeIntent s) \<le> 1"
proof -
  have "\<And>x. x \<in> {\<lparr>intent_type = ''image_generation'', confidence = 0.9\<rparr>,
      \<lparr>intent_type = ''image_generation'', confidence = 0.9\<rparr>,
      \<lparr>intent_type = ''code_generation'', confidence = 0.8\<rparr>,
      \<lparr>intent_type = ''code_generation'', confidence = 0.9\<rparr>,
      \<lparr>intent_type = ''web_search'', confidence = 0.7\<rparr>,
      \<lparr>intent_type = ''voice_command'', confidence = 0.8\<rparr>,
      \<lparr>intent_type = ''document_analysis'', confidence = 0.7\<rparr>,
      \<lparr>intent_type = ''text_response'', confidence = 0.9::real\<rparr>} \<Longrightarrow>
      0 \<le> confidence x \<and> confidence x \<le> 1"
    by (elim insertE emptyE) simp_all
  then show ?thesis using analyzeIntent_cases by blast
qed

lemma analyzeIntent_default:
  assumes "\<not> any_rule (toLowerCase s)"
  shows "analyzeIntent s = \<lparr>intent_type = ''text_response'', confidence = 0.9\<rparr>"
  unfolding analyzeIntent_def Let_def
  by (rule if_chain_default) (use assms in \<open>unfold any_rule_def image_rule_def, blast\<close>)+

lemma classify_image_of_a_cat:
  "analyzeIntent ''Generate an image of a cat'' =
   \<lparr>intent_type = ''image_generation'', confidence = 0.9\<rparr>"
  by code_simp

lemma classify_write_a_script:
  "analyzeIntent ''Write a script to sort a list'' =
   \<lparr>intent_type = ''code_generation'', confidence = 0.9\<rparr>"
  by code_simp

lemma classify_weather:
  "analyzeIntent ''What's the weather'' =
   \<lparr>intent_type = ''text_response'', confidence = 0.9\<rparr>"
  by code_simp

lemma weather_matches_no_rule: "\<not> any_rule (toLowerCase ''What's the weather'')"
  by code_simp

text \<open>
  Claim C6. \<open>analyzeIntent\<close> is a function of its argument alone, defined on every string:
  its category is one of the six, its confidence lies between 0 and 1, a message that
  triggers no rule is classified \<open>text_response\<close> with confidence 0.9, and the three
  sample messages of the specification are classified as it says.
\<close>

theorem analyzeIntent_total:
  "intent_type (analyzeIntent s) \<in>
     {''image_generation'', ''code_generation'', ''web_search'', ''voice_command'',
      ''document_analysis'', ''text_response''} \<and>
   0 \<le> confidence (analyzeIntent s) \<and> confidence (analyzeIntent s) \<le> 1 \<and>
   (\<not> any_rule (toLowerCase s) \<longrightarrow>
      analyzeIntent s = \<lparr>intent_type = ''text_response'', confidence = 0.9\<rparr>) \<and>
   analyzeIntent ''Generate an image of a cat'' =
     \<lparr>intent_type = ''image_generation'', confidence = 0.9\<rparr> \<and>
   analyzeIntent ''Write a script to sort a list'' =
     \<lparr>intent_type = ''code_generation'', confidence = 0.9\<rparr> \<and>
   analyzeIntent ''What's the weather'' =
     \<lparr>intent_type = ''text_response'', confidence = 0.9\<rparr>"
  using analyzeIntent_type [of s] analyzeIntent_confidence [of s] analyzeIntent_default [of s]
    classify_image_of_a_cat classify_write_a_script classify_weather
  by blast

theorem analyzeIntent_total_witness:
  "\<not> any_rule (toLowerCase ''What's the weather'') \<and>
   analyzeIntent ''What's the weather'' =
     \<lparr>intent_type = ''text_response'', confidence = 0.9\<rparr> \<and>
   intent_type (analyzeIntent ''What's the weather'') \<in>
     {''image_generation'', ''code_generation'', ''web_search'', ''voice_command'',
      ''document_analysis'', ''text_response''}"
  using analyzeIntent_total [of "''What's the weather''"] weather_matches_no_rule
  by blast

lemma lower_write_code: "toLowerCase ''write code'' = ''write code''"
  by code_simp

lemma lower_write_code_image:
  "toLowerCase ''write code to generate an image'' = ''write code to generate an image''"
  by code_simp

lemma classify_write_code:
  "analyzeIntent ''write code'' = \<lparr>intent_type = ''code_generation'', confidence = 0.8\<rparr>"
  by code_simp

lemma classify_write_code_image:
  "analyzeIntent ''write code to generate an image'' =
   \<lparr>intent_type = ''image_generation'', confidence = 0.9\<rparr>"
  by code_simp

lemma write_code_no_image: "\<not> image_rule (toLowerCase ''write code'')"
  by code_simp

text \<open>
  Claim C5, as stated, fails. \<open>''write code''\<close> contains both words and is classified
  \<open>code_generation\<close> with confidence 0.8, not 0.9: the test for
  \<open>code\<close>, \<open>program\<close>, \<open>function\<close> stands before the test for \<open>write\<close> in \<open>analyzeIntent\<close>.
  \<open>''write code to generate an image''\<close> contains both words and is classified
  \<open>image_generation\<close>: the image tests stand before both.
\<close>

theorem write_code_counterexample:
  "includes_str (toLowerCase ''write code'') ''write'' \<and>
   includes_str (toLowerCase ''write code'') ''code'' \<and>
   analyzeIntent ''write code'' = \<lparr>intent_type = ''code_generation'', confidence = 0.8\<rparr> \<and>
   confidence (analyzeIntent ''write code'') \<noteq> 0.9 \<and>
   includes_str (toLowerCase ''write code to generate an image'') ''write'' \<and>
   includes_str (toLowerCase ''write code to generate an image'') ''code'' \<and>
   analyzeIntent ''write code to generate an image'' =
     \<lparr>intent_type = ''image_generation'', confidence = 0.9\<rparr>"
  by (simp add: lower_write_code lower_write_code_image classify_write_code
      classify_write_code_image)

text \<open>
  Claim C5, amended. A message whose lower-case form contains \<open>write\<close> and \<open>code\<close> and does
  not trigger the image rule is classified \<open>code_generation\<close>.
\<close>

theorem analyzeIntent_write_code:
  assumes "includes_str (toLowerCase s) ''write''"
    and "includes_str (toLowerCase s) ''code''"
    and "\<not> image_rule (toLowerCase s)"
  shows "intent_type (analyzeIntent s) = ''code_generation''"
proof -
  have "analyzeIntent s = \<lparr>intent_type = ''code_generation'', confidence = 0.8\<rparr>"
    unfolding analyzeIntent_def Let_def
    by (rule if_chain_third) (use assms in \<open>unfold image_rule_def, blast\<close>)+
  then show ?thesis by (simp only: intent.select_convs)
qed

theorem analyzeIntent_write_code_witness:
  "includes_str (toLowerCase ''write code'') ''write'' \<and>
   includes_str (toLowerCase ''write code'') ''code'' \<and>
   \<not> image_rule (toLowerCase ''write code'') \<and>
   intent_type (analyzeIntent ''write code'') = ''code_generation''"
proof -
  have 1: "includes_str (toLowerCase ''write code'') ''write''"
    by (simp add: lower_write_code)
  have 2: "includes_str (toLowerCase ''write code'') ''code''"
    by (simp add: lower_write_code)
  from analyzeIntent_write_code [OF 1 2 write_code_no_image] 1 2 write_code_no_image
  show ?thesis by blast
qed

section \<open>Usage limits: properties\<close>

lemma limits_key: "map_of (limits p) t = Some v \<Longrightarrow> t \<in> {''messages'', ''images'', ''code''}"
  by (cases p) (auto simp: limits_def split: if_splits)

lemma usage_undefined:
  "t \<in> {''messages'', ''images'', ''code''} \<Longrightarrow>
   get_prop (usage_props us) (t @ ''sSent'') = Undefined \<and>
   get_prop (usage_props us) (t @ ''sGenerated'') = Undefined"
  by (auto simp: get_prop_def usage_props_def object_prototype_keys_def)

lemma checkLimits_iff:
  "checkLimits u t \<longleftrightarrow>
   subscription_plan u = enterprise \<and> t \<in> {''messages'', ''images'', ''code''}"
proof (cases "map_of (limits (subscription_plan u)) t")
  case None
  then have g: "get_prop (limits (subscription_plan u)) t \<in> {Obj, Undefined}"
    by (simp add: get_prop_def)
  from None have "t \<notin> {''messages'', ''images'', ''code''}"
    by (cases "subscription_plan u") (auto simp: limits_def)
  with g show ?thesis
    by (auto simp: checkLimits_def Let_def js_lt_def split: option.splits)
next
  case (Some v)
  then have t: "t \<in> {''messages'', ''images'', ''code''}" by (rule limits_key)
  have cur:
    "js_or (js_or (get_prop (usage_props (user_usage u)) (t @ ''sSent''))
                  (get_prop (usage_props (user_usage u)) (t @ ''sGenerated'')))
           (get_prop (usage_props (user_usage u)) (t @ ''sGenerated'')) = Undefined"
    using usage_undefined [OF t, of "user_usage u"] by (simp add: js_or_def)
  have lim: "get_prop (limits (subscription_plan u)) t = Num (- 1) \<longleftrightarrow>
      subscription_plan u = enterprise"
    using t by (cases "subscription_plan u") (auto simp: get_prop_def limits_def)
  show ?thesis
    using t lim cur by (simp add: checkLimits_def Let_def js_lt_def)
qed

text \<open>
  Claim C9. For a user on plan \<open>free\<close>, \<open>basic\<close> or \<open>premium\<close>, \<open>checkLimits\<close> returns
  \<open>false\<close> for every type string, whatever the usage counters hold; for a type that is a key
  of the limit table both counter lookups are \<open>undefined\<close>; and \<open>checkLimits\<close> returns
  \<open>true\<close> exactly for plan \<open>enterprise\<close> with type \<open>messages\<close>, \<open>images\<close> or \<open>code\<close>.
\<close>

theorem checkLimits_false_below_enterprise:
  "(subscription_plan u \<in> {free, basic, premium} \<longrightarrow> checkLimits u t = False) \<and>
   (t \<in> {''messages'', ''images'', ''code''} \<longrightarrow>
      get_prop (usage_props (user_usage u)) (t @ ''sSent'') = Undefined \<and>
      get_prop (usage_props (user_usage u)) (t @ ''sGenerated'') = Undefined) \<and>
   (checkLimits u t = True \<longleftrightarrow>
      subscription_plan u = enterprise \<and> t \<in> {''messages'', ''images'', ''code''})"
  using checkLimits_iff [of u t] usage_undefined [of t "user_usage u"] by auto

theorem checkLimits_false_below_enterprise_witness:
  "subscription_plan example_user \<in> {free, basic, premium} \<and>
   ''messages'' \<in> {''messages'', ''images'', ''code''} \<and>
   checkLimits example_user ''messages'' = False \<and>
   get_prop (usage_props (user_usage example_user)) (''messages'' @ ''sSent'') = Undefined"
  using checkLimits_false_below_enterprise [of example_user "''messages''"]
  by (simp add: example_user_def)

section \<open>Lists: \<open>find\<close>, \<open>filter\<close> and the update of the first match\<close>

lemma find_None_set: "find P xs = None \<longleftrightarrow> (\<forall>x\<in>set xs. \<not> P x)"
  by (induction xs) auto

lemma find_Some_P: "find P xs = Some e \<Longrightarrow> P e"
  by (induction xs) (auto split: if_splits)

lemma length_update_first: "length (update_first P f xs) = length xs"
  by (induction xs) auto

lemma update_first_find:
  "find P xs = Some m \<Longrightarrow> P m' \<Longrightarrow> find P (update_first P (\<lambda>_. m') xs) = Some m'"
  by (induction xs) (auto split: if_splits)

lemma count_filter_le:
  "length (filter P (filter Q xs)) \<le> length (filter P xs)"
  by (induction xs) auto

section \<open>Reactions: properties\<close>

lemma addReactions_append:
  "addReactions (xs @ ys) m =
     (case addReactions xs m of Inl e \<Rightarrow> Inl e | Inr m' \<Rightarrow> addReactions ys m')"
  by (induction xs m rule: addReactions.induct) (auto split: sum.splits)

lemma filter_other_user:
  "u \<noteq> U \<Longrightarrow>
   filter (\<lambda>r. oid_toString (reaction_userId r) = U)
     (filter (\<lambda>r. oid_toString (reaction_userId r) \<noteq> u) rs) =
   filter (\<lambda>r. oid_toString (reaction_userId r) = U) rs"
  by (induction rs) auto

lemma addReaction_canonical:
  assumes "canonical u" and "t \<in> set reaction_types"
  shows "\<exists>n. oid_toString n = u \<and>
     addReaction u t now m =
       Inr (m\<lparr>reactions := filter (\<lambda>r. oid_toString (reaction_userId r) \<noteq> u) (reactions m) @
              [\<lparr>reaction_userId = n, reaction_type = t, reaction_timestamp = now\<rparr>]\<rparr>)"
  using assms by (auto simp: canonical_def addReaction_def split: option.splits)

lemma addReactions_canonical_run:
  assumes "list_all (\<lambda>c. canonical (fst c) \<and> fst (snd c) \<in> set reaction_types) calls"
  shows "\<exists>m0. addReactions calls m = Inr m0"
  using assms
proof (induction calls rule: rev_induct)
  case Nil
  then show ?case by simp
next
  case (snoc d ds)
  obtain u' t' n' where d: "d = (u', t', n')" by (cases d)
  from snoc.prems d have ok: "canonical u'" "t' \<in> set reaction_types"
    and "list_all (\<lambda>c. canonical (fst c) \<and> fst (snd c) \<in> set reaction_types) ds"
    by simp_all
  with snoc.IH obtain m0 where "addReactions ds m = Inr m0" by blast
  moreover from addReaction_canonical [OF ok, of n' m0]
  obtain m1 where "addReaction u' t' n' m0 = Inr m1" by blast
  ultimately show ?case by (simp add: d addReactions_append)
qed

text \<open>
  When every call gives its user id in canonical form (24 lower-case hex digits, as an
  \<open>ObjectId\<close> argument does) and a reaction type of the enum, the run is accepted, and a
  user who called at least once has exactly one reaction in the end, of the type of that
  user's last call.
\<close>

lemma addReaction_canonical_ids:
  assumes "list_all (\<lambda>c. canonical (fst c) \<and> fst (snd c) \<in> set reaction_types) calls"
    and "filter (\<lambda>c. fst c = U) calls \<noteq> []"
  shows "\<exists>m' r. addReactions calls m = Inr m' \<and>
     filter (\<lambda>r. oid_toString (reaction_userId r) = U) (reactions m') = [r] \<and>
     reaction_type r = fst (snd (last (filter (\<lambda>c. fst c = U) calls)))"
  using assms
proof (induction calls rule: rev_induct)
  case Nil
  then show ?case by simp
next
  case (snoc c calls)
  obtain u t n where c: "c = (u, t, n)" by (cases c)
  from snoc.prems(1) c have ok: "canonical u" "t \<in> set reaction_types"
    and rest: "list_all (\<lambda>c. canonical (fst c) \<and> fst (snd c) \<in> set reaction_types) calls"
    by simp_all
  from addReactions_canonical_run [OF rest] obtain m0 where
    m0: "addReactions calls m = Inr m0" by blast
  from addReaction_canonical [OF ok, of n m0] obtain k where
    k: "oid_toString k = u"
       "addReaction u t n m0 =
         Inr (m0\<lparr>reactions :=
                filter (\<lambda>r. oid_toString (reaction_userId r) \<noteq> u) (reactions m0) @
                [\<lparr>reaction_userId = k, reaction_type = t, reaction_timestamp = n\<rparr>]\<rparr>)"
    by blast
  show ?case
  proof (cases "u = U")
    case True
    then show ?thesis
      using k m0 by (simp add: c addReactions_append)
  next
    case False
    with snoc.prems(2) c have ne: "filter (\<lambda>c. fst c = U) calls \<noteq> []" by simp
    from snoc.IH [OF rest ne] m0 obtain r where
      r: "filter (\<lambda>r. oid_toString (reaction_userId r) = U) (reactions m0) = [r]"
         "reaction_type r = fst (snd (last (filter (\<lambda>c. fst c = U) calls)))" by auto
    show ?thesis
      using False r k m0
      by (simp add: c addReactions_append filter_other_user del: filter_filter)
  qed
qed

lemma cast_upper_case: "cast_ObjectId ''00000000000000000000000A'' = Some 10"
  by code_simp

lemma cast_lower_case: "cast_ObjectId ''00000000000000000000000a'' = Some 10"
  by code_simp

lemma toString_ten: "oid_toString 10 = ''00000000000000000000000a''"
  by code_simp

lemma addReaction_lower_case_twice:
  "reactions_view
     (addReactions
        [(''00000000000000000000000a'', ''like'', 1), (''00000000000000000000000a'', ''love'', 2)]
        example_message) =
   Some [(''00000000000000000000000a'', ''love'')]"
  by (simp add: addReaction_def reactions_view_def example_message_def new_message_def
      reaction_types_def cast_lower_case toString_ten)

text \<open>
  Claim C8 is what the code sets out to do (its comment: remove the existing reaction from
  this user, then add the new one), and the code misses it for a user id written with
  upper-case hex digits. The filter compares the \<open>toString()\<close> of each stored id, which is
  in lower case, with the argument as it was given, so it removes nothing; the reaction
  pushed is cast to the same id as before. After two \<open>addReaction\<close> calls by the user
  \<open>00000000000000000000000A\<close> the message holds two reactions of that one user.
\<close>

theorem addReaction_upper_case_id_twice:
  "reactions_view
     (addReactions
        [(''00000000000000000000000A'', ''like'', 1), (''00000000000000000000000A'', ''love'', 2)]
        example_message) =
   Some [(''00000000000000000000000a'', ''like''), (''00000000000000000000000a'', ''love'')]"
  by (simp add: addReaction_def reactions_view_def example_message_def new_message_def
      reaction_types_def cast_upper_case toString_ten)

section \<open>Sharing: properties\<close>

lemma count_update_first:
  "length (filter (\<lambda>s. oid_toString (share_userId s) = u)
     (update_first P (\<lambda>s. s\<lparr>permission := perm\<rparr>) xs)) =
   length (filter (\<lambda>s. oid_toString (share_userId s) = u) xs)"
  by (induction xs) auto

lemma shareWith_canonical_count:
  assumes "length (filter (\<lambda>s. oid_toString (share_userId s) = u) (sharedWith c)) \<le> 1"
    and "canonical uid" and "perm \<in> set permission_levels"
  shows "\<exists>c'. shareWith uid perm now c = Inr c' \<and>
     length (filter (\<lambda>s. oid_toString (share_userId s) = u) (sharedWith c')) \<le> 1"
proof (cases "find (\<lambda>s. oid_toString (share_userId s) = uid) (sharedWith c)")
  case None
  then have "\<forall>x\<in>set (sharedWith c). oid_toString (share_userId x) \<noteq> uid"
    by (simp add: find_None_set)
  then have e: "filter (\<lambda>s. oid_toString (share_userId s) = uid) (sharedWith c) = []"
    by (simp add: filter_empty_conv)
  from assms(2) obtain n where n: "cast_ObjectId uid = Some n" "oid_toString n = uid"
    by (auto simp: canonical_def split: option.splits)
  show ?thesis
    using None assms(1,3) n e by (cases "u = uid") (simp_all add: shareWith_def)
next
  case (Some e)
  then show ?thesis using assms(1,3) by (simp add: shareWith_def count_update_first)
qed

lemma removeShare_count:
  assumes "length (filter (\<lambda>s. oid_toString (share_userId s) = u) (sharedWith c)) \<le> 1"
  shows "length (filter (\<lambda>s. oid_toString (share_userId s) = u)
     (sharedWith (removeShare uid c))) \<le> 1"
proof -
  have "length (filter (\<lambda>s. oid_toString (share_userId s) = u)
          (filter (\<lambda>s. oid_toString (share_userId s) \<noteq> uid) (sharedWith c)))
        \<le> length (filter (\<lambda>s. oid_toString (share_userId s) = u) (sharedWith c))"
    by (rule count_filter_le)
  also note assms
  finally show ?thesis by (simp add: removeShare_def del: filter_filter)
qed

text \<open>
  When every \<open>shareWith\<close> of a run gives its user id in canonical form (24 lower-case hex
  digits) and a permission of the enum, the run is accepted and keeps at most one entry for
  each user.
\<close>

lemma share_run_canonical_ids:
  assumes "list_all canonical_op ops"
    and "length (filter (\<lambda>s. oid_toString (share_userId s) = u) (sharedWith c)) \<le> 1"
  shows "\<exists>c'. share_run ops c = Inr c' \<and>
     length (filter (\<lambda>s. oid_toString (share_userId s) = u) (sharedWith c')) \<le> 1"
  using assms
proof (induction ops arbitrary: c)
  case Nil
  then show ?case by simp
next
  case (Cons op ops)
  from Cons.prems(1) have op: "canonical_op op" and ops: "list_all canonical_op ops"
    by simp_all
  have "\<exists>c1. share_step op c = Inr c1 \<and>
      length (filter (\<lambda>s. oid_toString (share_userId s) = u) (sharedWith c1)) \<le> 1"
  proof (cases op)
    case (ShareWith uid perm now)
    with op have "canonical uid" "perm \<in> set permission_levels"
      by (simp_all add: canonical_op_def)
    from shareWith_canonical_count [OF Cons.prems(2) this, of now] show ?thesis
      by (simp add: ShareWith)
  next
    case (RemoveShare uid)
    show ?thesis using removeShare_count [OF Cons.prems(2), of uid]
      by (simp add: RemoveShare)
  qed
  then obtain c1 where c1: "share_step op c = Inr c1"
    "length (filter (\<lambda>s. oid_toString (share_userId s) = u) (sharedWith c1)) \<le> 1"
    by blast
  from Cons.IH [OF ops c1(2)] c1(1) show ?case by simp
qed

lemma shareWith_lower_case_twice:
  "shares_view
     (share_run
        [ShareWith ''00000000000000000000000a'' ''read'' 1,
         ShareWith ''00000000000000000000000a'' ''write'' 2]
        example_conversation) =
   Some [(''00000000000000000000000a'', ''write'')]"
  by (simp add: shareWith_def removeShare_def shares_view_def example_conversation_def
      permission_levels_def cast_lower_case toString_ten)

text \<open>
  Claim C10 is what the code sets out to do (\<open>shareWith\<close> looks for the entry of the user
  and updates its permission, and appends only when it finds none), and the code misses it
  for a user id string written with upper-case hex digits. \<open>find\<close> compares the
  \<open>toString()\<close> of each stored id, which is in lower case, with the string as it was given
  and finds nothing, so the second \<open>shareWith\<close> for the user \<open>00000000000000000000000A\<close>
  appends a second entry of that one user, and \<open>removeShare\<close> with the same string removes
  neither.
\<close>

theorem shareWith_upper_case_id_twice:
  "shares_view
     (share_run
        [ShareWith ''00000000000000000000000A'' ''read'' 1,
         ShareWith ''00000000000000000000000A'' ''write'' 2,
         RemoveShare ''00000000000000000000000A'']
        example_conversation) =
   Some [(''00000000000000000000000a'', ''read''), (''00000000000000000000000a'', ''write'')]"
  by (simp add: shareWith_def removeShare_def shares_view_def example_conversation_def
      permission_levels_def cast_upper_case toString_ten)

section \<open>The message count: properties\<close>

lemma update_first_same_conversation:
  "find P xs = Some m \<Longrightarrow> conversationId m' = conversationId m \<Longrightarrow>
   length (filter (\<lambda>x. conversationId x = cid) (update_first P (\<lambda>_. m') xs)) =
   length (filter (\<lambda>x. conversationId x = cid) xs)"
  by (induction xs) (auto split: if_splits)

lemma validate_new_message:
  "validate_message (new_message mid c sndr body type md) \<longleftrightarrow>
   sndr \<in> set [''user'', ''ai''] \<and> body \<noteq> [] \<and> length body \<le> 10000 \<and>
   type \<in> set message_types"
  by (simp add: validate_message_def new_message_def)

lemma create_step:
  assumes "conversations st cid = Some c"
  shows "\<exists>c'. conversations (message_step (CreateMessage c0 sndr body type) st) cid = Some c' \<and>
     messageCount c' =
       messageCount c + (if creates_in cid (CreateMessage c0 sndr body type) then 1 else 0) \<and>
     length (messages_of (message_step (CreateMessage c0 sndr body type) st) cid) =
       length (messages_of st cid) +
       (if creates_in cid (CreateMessage c0 sndr body type) then 1 else 0)"
proof (cases "validate_message (new_message (next_oid st) c0 sndr body type [])")
  case False
  then have "\<not> creates_in cid (CreateMessage c0 sndr body type)"
    by (auto simp: creates_in_def validate_new_message)
  with False assms show ?thesis
    by (simp add: new_ObjectId_def new_Date_def Message_save_new_def messages_of_def)
next
  case True
  then have v: "creates_in cid (CreateMessage c0 sndr body type) \<longleftrightarrow> c0 = cid"
    by (auto simp: creates_in_def validate_new_message)
  have cm: "conversationId (new_message (next_oid st) c0 sndr body type []) = c0"
    by (simp add: new_message_def)
  show ?thesis
  proof (cases "c0 = cid")
    case True
    with \<open>validate_message _\<close> assms v cm show ?thesis
      by (simp add: new_ObjectId_def new_Date_def Message_save_new_def messages_of_def)
  next
    case False
    with \<open>validate_message _\<close> assms v cm show ?thesis
      by (simp add: new_ObjectId_def new_Date_def Message_save_new_def messages_of_def
          split: option.splits)
  qed
qed

lemma create_stores:
  assumes "conversations st cid = Some c"
    and "creates_in cid (CreateMessage cid sndr body type)"
  shows "messages (message_step (CreateMessage cid sndr body type) st) =
       messages st @ [new_message (next_oid st) cid sndr body type []] \<and>
     map_option messageCount
       (conversations (message_step (CreateMessage cid sndr body type) st) cid) =
       Some (messageCount c + 1)"
proof -
  have "validate_message (new_message (next_oid st) cid sndr body type [])"
    using assms(2) by (simp add: creates_in_def validate_new_message)
  moreover have "conversationId (new_message (next_oid st) cid sndr body type []) = cid"
    by (simp add: new_message_def)
  ultimately show ?thesis
    using assms(1) by (simp add: new_ObjectId_def new_Date_def Message_save_new_def)
qed

lemma soft_delete_step:
  assumes "conversations st cid = Some c"
  shows "conversations (message_step (SoftDelete mid uid) st) cid = Some c \<and>
     length (messages_of (message_step (SoftDelete mid uid) st) cid) =
       length (messages_of st cid)"
proof (cases "find (\<lambda>m. message_id m = mid) (messages st)")
  case None
  with assms show ?thesis by simp
next
  case (Some m)
  have c: "conversationId (softDelete uid (clock st) m) = conversationId m"
    by (simp add: softDelete_def)
  have i: "message_id (softDelete uid (clock st) m) = mid"
    using find_Some_P [OF Some] by (simp add: softDelete_def)
  from Some i have f: "find (\<lambda>x. message_id x = message_id (softDelete uid (clock st) m))
      (messages st) = Some m" by simp
  from update_first_same_conversation [OF f c, of cid] assms Some
  show ?thesis
    by (simp add: new_Date_def Message_save_deleted_def messages_of_def)
qed

lemma soft_delete_marks:
  assumes "find (\<lambda>m. message_id m = mid) (messages st) = Some m"
  shows "find (\<lambda>m. message_id m = mid) (messages (message_step (SoftDelete mid uid) st)) =
       Some (m\<lparr>isDeleted := True, deletedAt := Some (clock st), deletedBy := Some uid\<rparr>) \<and>
     length (messages (message_step (SoftDelete mid uid) st)) = length (messages st) \<and>
     conversations (message_step (SoftDelete mid uid) st) = conversations st"
proof -
  have i: "message_id m = mid" using find_Some_P [OF assms] .
  have "find (\<lambda>x. message_id x = mid)
      (update_first (\<lambda>x. message_id x = mid) (\<lambda>_. softDelete uid (clock st) m) (messages st)) =
      Some (softDelete uid (clock st) m)"
    using assms i by (intro update_first_find) (simp_all add: softDelete_def)
  then show ?thesis
    using assms i
    by (simp add: new_Date_def Message_save_deleted_def softDelete_def length_update_first)
qed

lemma message_step_count:
  assumes "conversations st cid = Some c"
  shows "\<exists>c'. conversations (message_step op st) cid = Some c' \<and>
     messageCount c' = messageCount c + (if creates_in cid op then 1 else 0) \<and>
     length (messages_of (message_step op st) cid) =
       length (messages_of st cid) + (if creates_in cid op then 1 else 0)"
proof (cases op)
  case (CreateMessage c0 sndr body type)
  show ?thesis unfolding CreateMessage by (rule create_step [OF assms])
next
  case (SoftDelete mid uid)
  show ?thesis using soft_delete_step [OF assms, of mid uid]
    by (simp add: SoftDelete creates_in_def)
qed

lemma message_run_count:
  assumes "conversations st cid = Some c"
  shows "\<exists>c'. conversations (message_run ops st) cid = Some c' \<and>
     messageCount c' = messageCount c + int (length (filter (creates_in cid) ops)) \<and>
     length (messages_of (message_run ops st) cid) =
       length (messages_of st cid) + length (filter (creates_in cid) ops)"
  using assms unfolding message_run_def
proof (induction ops arbitrary: st c)
  case Nil
  then show ?case by simp
next
  case (Cons op ops)
  from message_step_count [OF Cons.prems, of op] obtain c1 where
    c1: "conversations (message_step op st) cid = Some c1"
      "messageCount c1 = messageCount c + (if creates_in cid op then 1 else 0)"
      "length (messages_of (message_step op st) cid) =
         length (messages_of st cid) + (if creates_in cid op then 1 else 0)" by blast
  from Cons.IH [OF c1(1)] obtain c' where
    c': "conversations (fold message_step ops (message_step op st)) cid = Some c'"
      "messageCount c' = messageCount c1 + int (length (filter (creates_in cid) ops))"
      "length (messages_of (fold message_step ops (message_step op st)) cid) =
         length (messages_of (message_step op st) cid) + length (filter (creates_in cid) ops)"
    by blast
  show ?case using c1 c' by simp
qed

lemma split_filter:
  "length (filter P xs) =
   length (filter (\<lambda>x. P x \<and> \<not> Q x) xs) + length (filter Q (filter P xs))"
  by (induction xs) simp_all

lemma split_live_deleted:
  "length (messages_of st cid) =
   length (live_messages_of st cid) + length (filter isDeleted (messages_of st cid))"
  unfolding messages_of_def live_messages_of_def by (rule split_filter)

text \<open>
  Claim C1, as stated, fails: after one message is created in conversation 1 and then
  soft-deleted, \<open>messageCount\<close> is 1 and the conversation has no message with
  \<open>isDeleted = false\<close>. \<open>softDelete\<close> saves a document that is not new, and the save hook
  changes the count for new documents only.
\<close>

theorem messageCount_counterexample:
  "map_option messageCount
     (conversations
        (message_run [CreateMessage 1 ''user'' ''hi'' ''text'', SoftDelete 10 5] example_store)
        1) = Some 1 \<and>
   live_messages_of
     (message_run [CreateMessage 1 ''user'' ''hi'' ''text'', SoftDelete 10 5] example_store) 1
     = []"
  by code_simp

text \<open>
  Claim C1, amended. Over any run of message creations and soft deletions, \<open>messageCount\<close>
  of a conversation grows by one for each message created under it (each creation the
  schema accepts) and by nothing else, and so does the number of messages stored under it:
  creating a message increments the count and stores the message, soft-deleting one leaves
  the count unchanged and removes nothing. So when the count equalled the number of
  messages stored under the conversation before the run (as for a new conversation: 0 and
  none), it equals after the run the number of stored messages with \<open>isDeleted = false\<close>
  plus the number with \<open>isDeleted = true\<close>. A soft deletion of a stored message sets its
  \<open>isDeleted\<close>, \<open>deletedAt\<close> and \<open>deletedBy\<close>, keeps every stored message and changes no
  conversation; a creation the schema accepts appends the new message, not deleted, and
  adds one to the count of its conversation.
\<close>

theorem messageCount_counts_stored_messages:
  assumes "conversations st cid = Some c"
  shows "(\<exists>c'. conversations (message_run ops st) cid = Some c' \<and>
       messageCount c' = messageCount c + int (length (filter (creates_in cid) ops)) \<and>
       length (messages_of (message_run ops st) cid) =
         length (messages_of st cid) + length (filter (creates_in cid) ops) \<and>
       (messageCount c = int (length (messages_of st cid)) \<longrightarrow>
          messageCount c' =
            int (length (live_messages_of (message_run ops st) cid)) +
            int (length (filter isDeleted (messages_of (message_run ops st) cid))))) \<and>
     (find (\<lambda>x. message_id x = mid) (messages st) = Some m \<longrightarrow>
        find (\<lambda>x. message_id x = mid) (messages (message_step (SoftDelete mid uid) st)) =
          Some (m\<lparr>isDeleted := True, deletedAt := Some (clock st), deletedBy := Some uid\<rparr>) \<and>
        length (messages (message_step (SoftDelete mid uid) st)) = length (messages st) \<and>
        conversations (message_step (SoftDelete mid uid) st) = conversations st) \<and>
     (creates_in cid (CreateMessage cid sndr body type) \<longrightarrow>
        messages (message_step (CreateMessage cid sndr body type) st) =
          messages st @ [new_message (next_oid st) cid sndr body type []] \<and>
        isDeleted (new_message (next_oid st) cid sndr body type []) = False \<and>
        map_option messageCount
          (conversations (message_step (CreateMessage cid sndr body type) st) cid) =
          Some (messageCount c + 1))"
proof -
  from message_run_count [OF assms, of ops] obtain c' where
    c': "conversations (message_run ops st) cid = Some c'"
      "messageCount c' = messageCount c + int (length (filter (creates_in cid) ops))"
      "length (messages_of (message_run ops st) cid) =
         length (messages_of st cid) + length (filter (creates_in cid) ops)"
    by blast
  have "messageCount c = int (length (messages_of st cid)) \<longrightarrow>
      messageCount c' =
        int (length (live_messages_of (message_run ops st) cid)) +
        int (length (filter isDeleted (messages_of (message_run ops st) cid)))"
    using c'(2,3) split_live_deleted [of "message_run ops st" cid] by simp
  with c' have 1: "\<exists>c'. conversations (message_run ops st) cid = Some c' \<and>
       messageCount c' = messageCount c + int (length (filter (creates_in cid) ops)) \<and>
       length (messages_of (message_run ops st) cid) =
         length (messages_of st cid) + length (filter (creates_in cid) ops) \<and>
       (messageCount c = int (length (messages_of st cid)) \<longrightarrow>
          messageCount c' =
            int (length (live_messages_of (message_run ops st) cid)) +
            int (length (filter isDeleted (messages_of (message_run ops st) cid))))"
    by blast
  have 3: "isDeleted (new_message (next_oid st) cid sndr body type []) = False"
    by (simp add: new_message_def)
  from 1 3 soft_delete_marks [of mid st m uid] create_stores [OF assms, of sndr body type]
  show ?thesis by blast
qed

lemma eleven_messages: "length (messages_of eleven_messages_store 1) = 11"
  by code_simp

lemma eleven_messages_first:
  "find (\<lambda>x. message_id x = 101) (messages eleven_messages_store) =
     Some (new_message 101 1 ''user'' ''a'' ''text'' [])"
  by code_simp

lemma eleven_messages_creates:
  "length (filter (creates_in 1) [CreateMessage 1 ''user'' ''hi'' ''text'', SoftDelete 101 5]) = 1"
  by code_simp

theorem messageCount_counts_stored_messages_witness:
  "conversations eleven_messages_store 1 = Some (example_conversation\<lparr>messageCount := 11\<rparr>) \<and>
   messageCount (example_conversation\<lparr>messageCount := 11\<rparr>) =
     int (length (messages_of eleven_messages_store 1)) \<and>
   find (\<lambda>x. message_id x = 101) (messages eleven_messages_store) =
     Some (new_message 101 1 ''user'' ''a'' ''text'' []) \<and>
   (\<exists>c'. conversations
       (message_run [CreateMessage 1 ''user'' ''hi'' ''text'', SoftDelete 101 5]
          eleven_messages_store) 1 = Some c' \<and>
     messageCount c' = 12 \<and>
     length (messages_of
       (message_run [CreateMessage 1 ''user'' ''hi'' ''text'', SoftDelete 101 5]
          eleven_messages_store) 1) = 12 \<and>
     messageCount c' =
       int (length (live_messages_of
         (message_run [CreateMessage 1 ''user'' ''hi'' ''text'', SoftDelete 101 5]
            eleven_messages_store) 1)) +
       int (length (filter isDeleted (messages_of
         (message_run [CreateMessage 1 ''user'' ''hi'' ''text'', SoftDelete 101 5]
            eleven_messages_store) 1)))) \<and>
   map_option isDeleted
     (find (\<lambda>x. message_id x = 101)
        (messages (message_step (SoftDelete 101 5) eleven_messages_store))) = Some True \<and>
   creates_in 1 (CreateMessage 1 ''user'' ''hi'' ''text'') \<and>
   messages (message_step (CreateMessage 1 ''user'' ''hi'' ''text'') eleven_messages_store) =
     messages eleven_messages_store @
     [new_message (next_oid eleven_messages_store) 1 ''user'' ''hi'' ''text'' []] \<and>
   map_option messageCount
     (conversations
        (message_step (CreateMessage 1 ''user'' ''hi'' ''text'') eleven_messages_store) 1) =
     Some 12"
proof -
  have 1: "conversations eleven_messages_store 1 =
      Some (example_conversation\<lparr>messageCount := 11\<rparr>)"
    by (simp add: eleven_messages_store_def)
  have 2: "messageCount (example_conversation\<lparr>messageCount := 11\<rparr>) =
      int (length (messages_of eleven_messages_store 1))"
    using eleven_messages by simp
  note 3 = eleven_messages_first
  have 4: "creates_in 1 (CreateMessage 1 ''user'' ''hi'' ''text'')"
    by (simp add: creates_in_def message_types_def)
  from messageCount_counts_stored_messages
    [OF 1, of "[CreateMessage 1 ''user'' ''hi'' ''text'', SoftDelete 101 5]"
       101 "new_message 101 1 ''user'' ''a'' ''text'' []" 5 "''user''" "''hi''" "''text''"]
    1 2 3 4 eleven_messages eleven_messages_creates
  show ?thesis by auto
qed

section \<open>The orchestrator: properties\<close>

lemmas turn_defs = handleMessage_def get_or_create_conversation_def bind_def Let_def
  new_ObjectId_def new_Date_def Message_save_new_def Conversation_save_new_def
  Conversation_save_lastMessage_def

subsection \<open>Access checks\<close>

lemma handleMessage_denied:
  assumes "d_conversationId d = Some cid"
    and "conversations st cid = None \<or>
         (\<exists>c. conversations st cid = Some c \<and> userId c \<noteq> d_userId d)"
  shows "fst (handleMessage p st d) = st \<and>
     snd (handleMessage p st d) \<in> {Inl UserNotFound, Inl ConversationNotFoundOrAccessDenied}"
  using assms
  by (auto simp: handleMessage_def get_or_create_conversation_def bind_def Let_def
      split: option.splits)

lemma deleteConversation_denied:
  assumes "\<exists>c. conversations st cid = Some c \<and> userId c \<noteq> uid"
  shows "deleteConversation st uid cid = (st, Inl ConversationNotFound)"
  using assms by (auto simp: deleteConversation_def split: option.splits)

text \<open>
  Claim C3. A call of \<open>handleMessage\<close> that names a conversation which does not exist, or
  whose owner is not the calling user, throws \<open>User not found\<close> or \<open>Conversation not found or
  access denied\<close> and leaves the store exactly as it was; \<open>deleteConversation\<close> by a user who
  is not the owner throws \<open>Conversation not found\<close> and leaves the store exactly as it was.
\<close>

theorem denied_access_writes_nothing:
  "(d_conversationId d = Some cid \<and>
      (conversations st cid = None \<or>
       (\<exists>c. conversations st cid = Some c \<and> userId c \<noteq> d_userId d)) \<longrightarrow>
      fst (handleMessage p st d) = st \<and>
      snd (handleMessage p st d) \<in>
        {Inl UserNotFound, Inl ConversationNotFoundOrAccessDenied}) \<and>
   ((\<exists>c. conversations st cid = Some c \<and> userId c \<noteq> uid) \<longrightarrow>
      deleteConversation st uid cid = (st, Inl ConversationNotFound))"
  using handleMessage_denied [of d cid st p] deleteConversation_denied [of st cid uid]
  by blast

theorem denied_access_writes_nothing_witness:
  "d_conversationId foreign_turn = Some 1 \<and>
   conversations example_store 1 = Some example_conversation \<and>
   userId example_conversation \<noteq> d_userId foreign_turn \<and>
   userId example_conversation \<noteq> 6 \<and>
   fst (handleMessage answering_providers example_store foreign_turn) = example_store \<and>
   snd (handleMessage answering_providers example_store foreign_turn) \<in>
     {Inl UserNotFound, Inl ConversationNotFoundOrAccessDenied} \<and>
   deleteConversation example_store 6 1 = (example_store, Inl ConversationNotFound)"
proof -
  have 1: "d_conversationId foreign_turn = Some 1" by (simp add: foreign_turn_def)
  have 2: "conversations example_store 1 = Some example_conversation"
    by (simp add: example_store_def)
  have 3: "userId example_conversation \<noteq> d_userId foreign_turn"
    by (simp add: example_conversation_def foreign_turn_def)
  have 4: "userId example_conversation \<noteq> 6" by (simp add: example_conversation_def)
  from denied_access_writes_nothing
    [of foreign_turn 1 example_store answering_providers 6] 1 2 3 4
  show ?thesis by blast
qed

subsection \<open>The context of a turn\<close>

lemma text_branch:
  assumes "intent_type (analyzeIntent message) = ''text_response''"
  shows "generateAIResponse p st now message cid =
     tagged_reply (analyzeIntent message)
       (generateTextResponse p message (conversation_history st cid))"
  using assms by (simp add: generateAIResponse_def Let_def)

lemma other_branches:
  assumes "intent_type (analyzeIntent message) \<noteq> ''text_response''"
  shows "generateAIResponse p st now message cid =
     generateAIResponse p (st\<lparr>messages := ms\<rparr>) now message cid"
proof -
  have "intent_type (analyzeIntent message) \<in>
     {''image_generation'', ''code_generation'', ''web_search'', ''voice_command'',
      ''document_analysis'', ''text_response''}" by (rule analyzeIntent_type)
  with assms have "intent_type (analyzeIntent message) \<in>
     {''image_generation'', ''code_generation'', ''web_search'', ''voice_command'',
      ''document_analysis''}" by blast
  then show ?thesis
    by (elim insertE emptyE) (simp_all add: generateAIResponse_def Let_def)
qed

lemma openai_sees_history:
  assumes "intent_type (analyzeIntent message) = ''text_response''"
    and "openai_chat p (chat_request message (conversation_history st cid)) = Some reply"
  shows "res_content (generateAIResponse p st now message cid) = reply"
  using assms
  by (simp add: text_branch generateTextResponse_def tagged_reply_def Let_def)

lemma history_prefix:
  assumes "length (messages_of st cid) > 10"
  shows "length (conversation_history st cid) = 10 \<and>
     (\<exists>rest. rest \<noteq> [] \<and> messages_of st cid = conversation_history st cid @ rest)"
proof -
  have h: "conversation_history st cid = take 10 (messages_of st cid)"
    by (simp add: conversation_history_def messages_of_def)
  have "drop 10 (messages_of st cid) \<noteq> []" using assms by simp
  moreover have "messages_of st cid = take 10 (messages_of st cid) @ drop 10 (messages_of st cid)"
    by simp
  ultimately have "\<exists>rest. rest \<noteq> [] \<and>
      messages_of st cid = take 10 (messages_of st cid) @ rest"
    by blast
  then show ?thesis unfolding h using assms by simp
qed

text \<open>
  Claim C4, as stated, fails: of the eleven messages of conversation 1, with contents \<open>a\<close>
  to \<open>k\<close> in the order in which they were stored, the code fetches \<open>a\<close> to \<open>j\<close>, the ten
  oldest, while the ten most recent are \<open>b\<close> to \<open>k\<close>; the chat completion of the turn
  \<open>hello\<close> is sent \<open>a\<close> to \<open>j\<close> and then \<open>hello\<close>; and that of the turn \<open>write code\<close>,
  which goes to \<open>generateCode\<close>, is sent the code prompt and none of the messages.
\<close>

theorem conversation_history_counterexample:
  "map message_id (conversation_history eleven_messages_store 1) =
     [101, 102, 103, 104, 105, 106, 107, 108, 109, 110] \<and>
   map message_id (spec_recent_context eleven_messages_store 1) =
     [102, 103, 104, 105, 106, 107, 108, 109, 110, 111] \<and>
   map content (conversation_history eleven_messages_store 1) =
     [''a'', ''b'', ''c'', ''d'', ''e'', ''f'', ''g'', ''h'', ''i'', ''j''] \<and>
   map content (spec_recent_context eleven_messages_store 1) =
     [''b'', ''c'', ''d'', ''e'', ''f'', ''g'', ''h'', ''i'', ''j'', ''k''] \<and>
   res_content (generateAIResponse echo_providers eleven_messages_store 12 ''hello'' 1) =
     ''abcdefghijhello'' \<and>
   res_content (generateAIResponse echo_providers eleven_messages_store 12 ''write code'' 1) =
     code_prompt_prefix @ ''write code''"
  by code_simp

text \<open>
  Claim C4, amended. For a conversation holding more than 10 messages, the context passed
  to the AI gateway for a turn classified \<open>text_response\<close> is the first 10 messages stored
  for that conversation, in the order in which they were stored (the 10 oldest, and at
  least one later message is left out): \<open>generateAIResponse\<close> answers with what
  \<open>generateTextResponse\<close> makes of that context, and the chat completion is sent the request
  built from it. For a turn of any other category no stored message is passed to the
  gateway: the reply is the same whatever messages the store holds.
\<close>

theorem conversation_history_oldest_ten:
  assumes "length (messages_of st cid) > 10"
  shows "length (conversation_history st cid) = 10 \<and>
     (\<exists>rest. rest \<noteq> [] \<and> messages_of st cid = conversation_history st cid @ rest) \<and>
     (intent_type (analyzeIntent message) = ''text_response'' \<longrightarrow>
        generateAIResponse p st now message cid =
          tagged_reply (analyzeIntent message)
            (generateTextResponse p message (conversation_history st cid)) \<and>
        (openai_chat p (chat_request message (conversation_history st cid)) = Some reply \<longrightarrow>
           res_content (generateAIResponse p st now message cid) = reply)) \<and>
     (intent_type (analyzeIntent message) \<noteq> ''text_response'' \<longrightarrow>
        generateAIResponse p st now message cid =
          generateAIResponse p (st\<lparr>messages := ms\<rparr>) now message cid)"
  using history_prefix [OF assms] text_branch [of message p st now cid]
    openai_sees_history [of message p st cid reply now]
    other_branches [of message p st now cid ms]
  by blast

lemma hello_is_text_response: "intent_type (analyzeIntent ''hello'') = ''text_response''"
  by code_simp

lemma echo_of_history:
  "openai_chat echo_providers (chat_request ''hello'' (conversation_history eleven_messages_store 1))
     = Some ''abcdefghijhello''"
  by code_simp

theorem conversation_history_oldest_ten_witness:
  "length (messages_of eleven_messages_store 1) > 10 \<and>
   intent_type (analyzeIntent ''hello'') = ''text_response'' \<and>
   openai_chat echo_providers
     (chat_request ''hello'' (conversation_history eleven_messages_store 1)) =
     Some ''abcdefghijhello'' \<and>
   length (conversation_history eleven_messages_store 1) = 10 \<and>
   res_content (generateAIResponse echo_providers eleven_messages_store 12 ''hello'' 1) =
     ''abcdefghijhello''"
proof -
  have 1: "length (messages_of eleven_messages_store 1) > 10"
    using eleven_messages by simp
  from conversation_history_oldest_ten
    [OF 1, of "''hello''" echo_providers 12 "''abcdefghijhello''"]
    1 hello_is_text_response echo_of_history
  show ?thesis by blast
qed

subsection \<open>The title of a new conversation\<close>

lemma full_stop_not_white_space: "\<not> is_white_space CHR ''.''"
  by (simp add: is_white_space_def)

lemma js_trim_ellipsis: "js_trim (xs @ ''...'') = dropWhile is_white_space xs @ ''...''"
proof -
  have 1: "dropWhile is_white_space (xs @ ''...'') = dropWhile is_white_space xs @ ''...''"
    by (simp add: dropWhile_append full_stop_not_white_space)
  have 2: "dropWhile is_white_space (rev (ys @ ''...'')) = rev (ys @ ''...'')" for ys
    by (simp add: full_stop_not_white_space)
  show ?thesis by (simp only: js_trim_def 1 2 rev_rev_ident)
qed

lemma title_valid:
  "js_trim (take 50 m @ ''...'') \<noteq> [] \<and> length (js_trim (take 50 m @ ''...'')) \<le> 200"
proof -
  have "length (dropWhile is_white_space (take 50 m)) \<le> length (take 50 m)"
    by (rule length_dropWhile_le)
  then show ?thesis by (simp add: js_trim_ellipsis)
qed

lemma title_untrimmed:
  "\<not> starts_with_white_space m \<Longrightarrow>
   dropWhile is_white_space (take 50 m) @ ''...'' = take 50 m @ ''...''"
  by (cases m) (simp_all add: starts_with_white_space_def take_Cons')

lemma first_turn_effect:
  assumes "d_conversationId d = None"
    and "handleMessage p st d = (st', Inr r)"
  shows "\<exists>c um am.
     conversations st' = (conversations st)(next_oid st \<mapsto> c) \<and>
     userId c = d_userId d \<and>
     title c = js_trim (take 50 (d_message d) @ ''...'') \<and>
     messageCount c = 2 \<and>
     messages st' = messages st @ [um, am] \<and>
     conversationId um = next_oid st \<and> sender um = ''user'' \<and>
     conversationId am = next_oid st \<and> sender am = ''ai'' \<and>
     r_conversationId r = next_oid st \<and>
     cv_title (r_conversation r) = title c"
  using assms
  by (auto simp: turn_defs new_message_def split: option.splits if_splits)

text \<open>
  Claim C7, as stated, fails for a message that begins with white space: the turn with
  message \<open>'' hi''\<close> succeeds, and the title stored and returned is \<open>''hi...''\<close>, while the
  first 50 characters of the message followed by the ellipsis are \<open>'' hi...''\<close>. The schema
  declares \<open>title\<close> with \<open>trim: true\<close>.
\<close>

theorem first_turn_title_counterexample:
  "map_option (cv_title \<circ> r_conversation)
     (returned (handleMessage answering_providers example_store indented_turn)) =
     Some ''hi...'' \<and>
   map_option title
     (conversations (fst (handleMessage answering_providers example_store indented_turn)) 10) =
     Some ''hi...'' \<and>
   take 50 (d_message indented_turn) @ ''...'' = '' hi...''"
  by code_simp

text \<open>
  Claim C7, amended. A successful turn with no \<open>conversationId\<close>, on a store in which the
  fresh id is unused, changes the conversations at that id only, where it puts a
  conversation owned by the calling user whose title is the first 50 characters of the
  message without their leading white space, followed by \<open>...\<close> (so the first 50 characters
  followed by \<open>...\<close> when the message does not begin with white space); and it appends
  exactly two messages of that conversation, the first from \<open>user\<close> and the second from
  \<open>ai\<close>.
\<close>

theorem first_turn_creates_conversation:
  assumes "d_conversationId d = None"
    and "handleMessage p st d = (st', Inr r)"
    and "conversations st (next_oid st) = None"
  shows "\<exists>c um am.
     conversations st (next_oid st) = None \<and>
     conversations st' = (conversations st)(next_oid st \<mapsto> c) \<and>
     userId c = d_userId d \<and>
     title c = dropWhile is_white_space (take 50 (d_message d)) @ ''...'' \<and>
     (\<not> starts_with_white_space (d_message d) \<longrightarrow>
        title c = take 50 (d_message d) @ ''...'') \<and>
     messages st' = messages st @ [um, am] \<and>
     conversationId um = next_oid st \<and> sender um = ''user'' \<and>
     conversationId am = next_oid st \<and> sender am = ''ai'' \<and>
     r_conversationId r = next_oid st \<and>
     cv_title (r_conversation r) = title c"
proof -
  from first_turn_effect [OF assms(1,2)] obtain c um am where
    e: "conversations st' = (conversations st)(next_oid st \<mapsto> c)"
      "userId c = d_userId d"
      "title c = js_trim (take 50 (d_message d) @ ''...'')"
      "messages st' = messages st @ [um, am]"
      "conversationId um = next_oid st" "sender um = ''user''"
      "conversationId am = next_oid st" "sender am = ''ai''"
      "r_conversationId r = next_oid st"
      "cv_title (r_conversation r) = title c"
    by blast
  have t: "title c = dropWhile is_white_space (take 50 (d_message d)) @ ''...''"
    using e(3) by (simp only: js_trim_ellipsis)
  have u: "\<not> starts_with_white_space (d_message d) \<longrightarrow>
      title c = take 50 (d_message d) @ ''...''"
    using t title_untrimmed [of "d_message d"] by simp
  from assms(3) e t u show ?thesis by blast
qed

lemma hello_turn_succeeds:
  "(case snd (handleMessage answering_providers example_store hello_turn) of
      Inl e \<Rightarrow> False | Inr r \<Rightarrow> True)"
  by code_simp

theorem first_turn_creates_conversation_witness:
  "d_conversationId hello_turn = None \<and>
   conversations example_store (next_oid example_store) = None \<and>
   \<not> starts_with_white_space (d_message hello_turn) \<and>
   (\<exists>r. handleMessage answering_providers example_store hello_turn =
      (fst (handleMessage answering_providers example_store hello_turn), Inr r)) \<and>
   (\<exists>c um am.
      conversations (fst (handleMessage answering_providers example_store hello_turn)) =
        (conversations example_store)(next_oid example_store \<mapsto> c) \<and>
      userId c = d_userId hello_turn \<and>
      title c = take 50 (d_message hello_turn) @ ''...'' \<and>
      messages (fst (handleMessage answering_providers example_store hello_turn)) =
        messages example_store @ [um, am] \<and>
      sender um = ''user'' \<and> sender am = ''ai'')"
proof -
  have 1: "d_conversationId hello_turn = None" by (simp add: hello_turn_def)
  have 3: "conversations example_store (next_oid example_store) = None"
    by (simp add: example_store_def)
  have 4: "\<not> starts_with_white_space (d_message hello_turn)"
    by (simp add: hello_turn_def starts_with_white_space_def is_white_space_def)
  obtain r where 2: "handleMessage answering_providers example_store hello_turn =
      (fst (handleMessage answering_providers example_store hello_turn), Inr r)"
    using hello_turn_succeeds
    by (cases "handleMessage answering_providers example_store hello_turn")
       (auto split: sum.splits)
  from first_turn_creates_conversation [OF 1 2 3] 1 2 3 4 show ?thesis by blast
qed


subsection \<open>A turn whose provider calls fail\<close>

lemma text_is_message_type: "''text'' \<in> set message_types"
  by (simp add: message_types_def)

lemma handleMessage_returns:
  assumes user: "users st (d_userId d) = Some u"
    and conv: "d_conversationId d = None \<or>
         (\<exists>cid c. d_conversationId d = Some cid \<and> conversations st cid = Some c \<and>
                  userId c = d_userId d)"
    and msg: "d_message d \<noteq> []" "length (d_message d) \<le> 10000"
      "length (js_trim (d_message d)) \<le> 500"
    and type: "case d_messageType d of None \<Rightarrow> True | Some t \<Rightarrow> t \<in> set message_types"
    and ai: "\<forall>st now cid. generateAIResponse p st now (d_message d) cid = R"
    and R: "res_content R \<noteq> []" "length (res_content R) \<le> 10000"
      "length (js_trim (res_content R)) \<le> 500" "or_text (res_type R) \<in> set message_types"
  shows "\<exists>st' r.
     handleMessage p st d = (st', Inr r) \<and>
     am_content (aiMessage r) = res_content R \<and>
     am_type (aiMessage r) = or_text (res_type R) \<and>
     am_metadata (aiMessage r) = res_metadata R \<and>
     um_content (userMessage r) = d_message d \<and>
     (\<exists>um \<in> set (messages st'). message_id um = um_id (userMessage r) \<and>
        sender um = ''user'' \<and> content um = d_message d)"
proof -
  have mt: "(case d_messageType d of None \<Rightarrow> ''text'' | Some t \<Rightarrow> t) \<in> set message_types"
    using type by (simp add: message_types_def split: option.splits)
  from conv show ?thesis
  proof
    assume "d_conversationId d = None"
    then show ?thesis
      using user msg mt ai R title_valid [of "d_message d"]
      by (simp add: turn_defs new_message_def validate_message_def)
  next
    assume "\<exists>cid c. d_conversationId d = Some cid \<and> conversations st cid = Some c \<and>
                  userId c = d_userId d"
    then obtain cid c where "d_conversationId d = Some cid" "conversations st cid = Some c"
      "userId c = d_userId d" by blast
    then show ?thesis
      using user msg mt ai R
      by (simp add: turn_defs new_message_def validate_message_def)
  qed
qed

lemma text_response_confidence:
  assumes "intent_type (analyzeIntent s) = ''text_response''"
  shows "analyzeIntent s = \<lparr>intent_type = ''text_response'', confidence = 0.9\<rparr>"
  using analyzeIntent_cases [of s] assms by auto

lemma generateAIResponse_fallback:
  assumes "\<forall>request. openai_chat p request = None"
    and "\<forall>prompt. gemini p prompt = None"
    and "intent_type (analyzeIntent message) = ''text_response''"
  shows "generateAIResponse p st now message cid =
     \<lparr>res_content = gemini_fallback_text, res_type = ''text'',
      res_metadata =
        [(''intent'', MStr ''text_response''), (''confidence'', MNum 0.9),
         (''model'', MStr ''fallback''), (''provider'', MStr ''rai'')]\<rparr>"
  using assms text_response_confidence [OF assms(3)]
  by (simp add: generateAIResponse_def tagged_reply_def generateTextResponse_def
      generateWithGemini_def or_text_def spread_def Let_def)

lemma generateAIResponse_error:
  assumes "\<forall>request. openai_chat p request = None"
    and "\<forall>prompt. openai_image p prompt = None"
    and "intent_type (analyzeIntent message) \<in> {''image_generation'', ''code_generation''}"
  shows "generateAIResponse p st now message cid =
     \<lparr>res_content = apology_text, res_type = ''text'',
      res_metadata = [(''error'', MBool True)]\<rparr>"
  using assms
  by (auto simp: generateAIResponse_def tagged_reply_def generateImage_def generateCode_def
      Let_def)

lemma fallback_text_valid:
  "gemini_fallback_text \<noteq> [] \<and> length gemini_fallback_text \<le> 10000 \<and>
   length (js_trim gemini_fallback_text) \<le> 500"
  by code_simp

lemma apology_text_valid:
  "apology_text \<noteq> [] \<and> length apology_text \<le> 10000 \<and>
   length (js_trim apology_text) \<le> 500"
  by code_simp

text \<open>
  Claim C2, amended. Take a turn of an existing user, in a new conversation or in one the
  user owns, with a message the schemas accept (not empty, at most 10000 characters, at most
  500 once trimmed, a message type of the schema), classified \<open>text_response\<close>,
  \<open>image_generation\<close> or \<open>code_generation\<close>, in which every provider call fails. Then
  \<open>handleMessage\<close> does not throw: it returns the user message, which is stored, and an AI
  message of type \<open>text\<close>. For \<open>text_response\<close>, where OpenAI and then Gemini are tried, the
  AI message is the fixed reply of \<open>generateWithGemini\<close>, its metadata names the model
  \<open>fallback\<close> and the provider \<open>rai\<close>, and it has no \<open>error\<close> entry. For \<open>image_generation\<close>
  and \<open>code_generation\<close>, which have no second provider, the AI message is the apology and
  its metadata is \<open>{ error: true }\<close>.
\<close>

theorem provider_failure_degraded_reply:
  assumes "users st (d_userId d) = Some u"
    and "d_conversationId d = None \<or>
         (\<exists>cid c. d_conversationId d = Some cid \<and> conversations st cid = Some c \<and>
                  userId c = d_userId d)"
    and "d_message d \<noteq> []" and "length (d_message d) \<le> 10000"
    and "length (js_trim (d_message d)) \<le> 500"
    and "case d_messageType d of None \<Rightarrow> True | Some t \<Rightarrow> t \<in> set message_types"
    and "\<forall>request. openai_chat p request = None"
    and "\<forall>prompt. openai_image p prompt = None"
    and "\<forall>prompt. gemini p prompt = None"
    and "intent_type (analyzeIntent (d_message d)) \<in>
           {''text_response'', ''image_generation'', ''code_generation''}"
  shows "\<exists>st' r.
     handleMessage p st d = (st', Inr r) \<and>
     um_content (userMessage r) = d_message d \<and>
     (\<exists>um \<in> set (messages st'). message_id um = um_id (userMessage r) \<and>
        sender um = ''user'' \<and> content um = d_message d) \<and>
     am_type (aiMessage r) = ''text'' \<and>
     (if intent_type (analyzeIntent (d_message d)) = ''text_response''
      then am_content (aiMessage r) = gemini_fallback_text \<and>
           am_metadata (aiMessage r) =
             [(''intent'', MStr ''text_response''), (''confidence'', MNum 0.9),
              (''model'', MStr ''fallback''), (''provider'', MStr ''rai'')] \<and>
           map_of (am_metadata (aiMessage r)) ''error'' = None
      else am_content (aiMessage r) = apology_text \<and>
           am_metadata (aiMessage r) = [(''error'', MBool True)] \<and>
           map_of (am_metadata (aiMessage r)) ''error'' = Some (MBool True))"
proof (cases "intent_type (analyzeIntent (d_message d)) = ''text_response''")
  case True
  let ?R = "\<lparr>res_content = gemini_fallback_text, res_type = ''text'',
      res_metadata =
        [(''intent'', MStr ''text_response''), (''confidence'', MNum 0.9),
         (''model'', MStr ''fallback''), (''provider'', MStr ''rai'')]\<rparr>"
  have ai: "\<forall>st now cid. generateAIResponse p st now (d_message d) cid = ?R"
    using generateAIResponse_fallback [OF assms(7) assms(9) True] by blast
  have "\<exists>st' r.
     handleMessage p st d = (st', Inr r) \<and>
     am_content (aiMessage r) = res_content ?R \<and>
     am_type (aiMessage r) = or_text (res_type ?R) \<and>
     am_metadata (aiMessage r) = res_metadata ?R \<and>
     um_content (userMessage r) = d_message d \<and>
     (\<exists>um \<in> set (messages st'). message_id um = um_id (userMessage r) \<and>
        sender um = ''user'' \<and> content um = d_message d)"
    using fallback_text_valid
    by (intro handleMessage_returns [OF assms(1-6) ai])
       (simp_all add: or_text_def text_is_message_type)
  then obtain st' r where f: "handleMessage p st d = (st', Inr r)"
      "am_content (aiMessage r) = gemini_fallback_text"
      "am_type (aiMessage r) = ''text''"
      "am_metadata (aiMessage r) =
         [(''intent'', MStr ''text_response''), (''confidence'', MNum 0.9),
          (''model'', MStr ''fallback''), (''provider'', MStr ''rai'')]"
      "um_content (userMessage r) = d_message d"
      "\<exists>um \<in> set (messages st'). message_id um = um_id (userMessage r) \<and>
         sender um = ''user'' \<and> content um = d_message d"
    by (auto simp: or_text_def)
  have e: "map_of (am_metadata (aiMessage r)) ''error'' = None"
    by (simp add: f(4))
  show ?thesis
    using True f e by (intro exI [of _ st'] exI [of _ r]) simp
next
  case False
  with assms(10) have i: "intent_type (analyzeIntent (d_message d)) \<in>
      {''image_generation'', ''code_generation''}" by blast
  let ?R = "\<lparr>res_content = apology_text, res_type = ''text'',
      res_metadata = [(''error'', MBool True)]\<rparr>"
  have ai: "\<forall>st now cid. generateAIResponse p st now (d_message d) cid = ?R"
    using generateAIResponse_error [OF assms(7) assms(8) i] by blast
  have "\<exists>st' r.
     handleMessage p st d = (st', Inr r) \<and>
     am_content (aiMessage r) = res_content ?R \<and>
     am_type (aiMessage r) = or_text (res_type ?R) \<and>
     am_metadata (aiMessage r) = res_metadata ?R \<and>
     um_content (userMessage r) = d_message d \<and>
     (\<exists>um \<in> set (messages st'). message_id um = um_id (userMessage r) \<and>
        sender um = ''user'' \<and> content um = d_message d)"
    using apology_text_valid
    by (intro handleMessage_returns [OF assms(1-6) ai])
       (simp_all add: or_text_def text_is_message_type)
  then obtain st' r where f: "handleMessage p st d = (st', Inr r)"
      "am_content (aiMessage r) = apology_text"
      "am_type (aiMessage r) = ''text''"
      "am_metadata (aiMessage r) = [(''error'', MBool True)]"
      "um_content (userMessage r) = d_message d"
      "\<exists>um \<in> set (messages st'). message_id um = um_id (userMessage r) \<and>
         sender um = ''user'' \<and> content um = d_message d"
    by (auto simp: or_text_def)
  have e: "map_of (am_metadata (aiMessage r)) ''error'' = Some (MBool True)"
    by (simp add: f(4))
  show ?thesis
    using False f e by (intro exI [of _ st'] exI [of _ r]) simp
qed

lemma hello_turn_is_text_response:
  "intent_type (analyzeIntent (d_message hello_turn)) = ''text_response''"
  by code_simp

theorem provider_failure_degraded_reply_witness:
  "users example_store (d_userId hello_turn) = Some example_user \<and>
   d_conversationId hello_turn = None \<and>
   d_message hello_turn \<noteq> [] \<and> length (d_message hello_turn) \<le> 10000 \<and>
   length (js_trim (d_message hello_turn)) \<le> 500 \<and>
   (case d_messageType hello_turn of None \<Rightarrow> True | Some t \<Rightarrow> t \<in> set message_types) \<and>
   (\<forall>request. openai_chat failing_providers request = None) \<and>
   (\<forall>prompt. openai_image failing_providers prompt = None) \<and>
   (\<forall>prompt. gemini failing_providers prompt = None) \<and>
   intent_type (analyzeIntent (d_message hello_turn)) = ''text_response'' \<and>
   (\<exists>st' r.
      handleMessage failing_providers example_store hello_turn = (st', Inr r) \<and>
      am_content (aiMessage r) = gemini_fallback_text \<and>
      map_of (am_metadata (aiMessage r)) ''error'' = None \<and>
      (\<exists>um \<in> set (messages st'). message_id um = um_id (userMessage r) \<and>
         sender um = ''user'' \<and> content um = d_message hello_turn))"
proof -
  have 1: "users example_store (d_userId hello_turn) = Some example_user"
    by (simp add: example_store_def hello_turn_def)
  have 2: "d_conversationId hello_turn = None \<or>
         (\<exists>cid c. d_conversationId hello_turn = Some cid \<and>
            conversations example_store cid = Some c \<and> userId c = d_userId hello_turn)"
    by (simp add: hello_turn_def)
  have 3: "d_message hello_turn \<noteq> []" by (simp add: hello_turn_def)
  have 4: "length (d_message hello_turn) \<le> 10000" by (simp add: hello_turn_def)
  have 5: "length (js_trim (d_message hello_turn)) \<le> 500"
    by (simp add: hello_turn_def js_trim_def is_white_space_def)
  have 6: "case d_messageType hello_turn of None \<Rightarrow> True | Some t \<Rightarrow> t \<in> set message_types"
    by (simp add: hello_turn_def)
  have 7: "\<forall>request. openai_chat failing_providers request = None"
    by (simp add: failing_providers_def)
  have 8: "\<forall>prompt. openai_image failing_providers prompt = None"
    by (simp add: failing_providers_def)
  have 9: "\<forall>prompt. gemini failing_providers prompt = None"
    by (simp add: failing_providers_def)
  have 10: "intent_type (analyzeIntent (d_message hello_turn)) \<in>
           {''text_response'', ''image_generation'', ''code_generation''}"
    using hello_turn_is_text_response by simp
  have n: "d_conversationId hello_turn = None" by (simp add: hello_turn_def)
  from provider_failure_degraded_reply [OF 1 2 3 4 5 6 7 8 9 10]
  obtain st' r where
    "handleMessage failing_providers example_store hello_turn = (st', Inr r)"
    "\<exists>um \<in> set (messages st'). message_id um = um_id (userMessage r) \<and>
        sender um = ''user'' \<and> content um = d_message hello_turn"
    "am_content (aiMessage r) = gemini_fallback_text"
    "map_of (am_metadata (aiMessage r)) ''error'' = None"
    using hello_turn_is_text_response by auto
  with 1 n 3 4 5 6 7 8 9 hello_turn_is_text_response show ?thesis by blast
qed

text \<open>
  The three remaining paths answer with the types \<open>search_result\<close>, \<open>document_analysis\<close>
  and \<open>voice_command\<close>, which the \<open>messageType\<close> enum of the message schema does not
  have: there the save of the AI message is rejected, after the user message was stored,
  whether the providers answer or fail.
\<close>

lemma search_turn_rejected:
  "snd (handleMessage failing_providers example_store search_turn) = Inl ValidationError \<and>
   snd (handleMessage answering_providers example_store search_turn) = Inl ValidationError \<and>
   map content (messages (fst (handleMessage failing_providers example_store search_turn))) =
     [''find the latest news'']"
  by code_simp

text \<open>
  Claim C2, as stated, fails: in the turn \<open>hello\<close>, where the OpenAI call and the Gemini
  call both fail, the AI message returned carries the metadata of the fallback reply, and
  that metadata has no \<open>error\<close> entry.
\<close>

theorem provider_failure_counterexample:
  "map_option (am_metadata \<circ> aiMessage)
     (returned (handleMessage failing_providers example_store hello_turn)) =
   Some [(''intent'', MStr ''text_response''), (''confidence'', MNum 0.9),
         (''model'', MStr ''fallback''), (''provider'', MStr ''rai'')] \<and>
   map_of [(''intent'', MStr ''text_response''), (''confidence'', MNum 0.9),
           (''model'', MStr ''fallback''), (''provider'', MStr ''rai'')] ''error'' = None"
proof -
  have "map_option (am_metadata \<circ> aiMessage)
     (returned (handleMessage failing_providers example_store hello_turn)) =
   Some [(''intent'', MStr ''text_response''), (''confidence'', MNum 0.9),
         (''model'', MStr ''fallback''), (''provider'', MStr ''rai'')]"
    by code_simp
  then show ?thesis by simp
qed


end
